theory Spec2Isabelle
  imports Complex_Main "HOL-Library.AList" "HOL-Library.Log_Nat"
begin

section \<open>Python values, errors and data frames\<close>

text \<open>
  The development embeds the gap analyser (\<^verbatim>\<open>models/gap_analysis.py\<close>) and the
  interpolation engine (\<^verbatim>\<open>models/interpolation.py\<close>) of the interpolation service.
  An exception of the Python code is a value \<open>Inl e\<close> of a sum type; the constructors of
  \<open>py_error\<close> are the exception classes the code and its libraries raise, with the message
  where the code gives one.
\<close>

datatype py_error =
    ValueError string
  | TypeError string
  | KeyError string
  | IndexError
  | AttributeError

text \<open>
  A cell of a numeric column is a float or the missing-value sentinel (NaN): \<open>None\<close> is
  missing. The cells are reals. Where the code compares a float that it or numpy computed
  with a threshold, the binary64 values are kept apart from the reals (see the section on
  binary64 numbers).

  A data frame is kept column-wise: the timestamp column (its name and its values, in
  seconds since the epoch) and the numeric columns in their order, each a list of cells of
  the length of the frame. The frames are typed: a power column is a numeric column, the
  time column of a call is the timestamp column or no column at all, and the timestamp
  column does not bear the name of a numeric column. A frame that has lost its timestamp
  column has the \<open>time_name\<close> \<open>None\<close>; its \<open>stamps\<close> are then all 0 and only give the number
  of its rows.
  A dict of Python is an association list in insertion order (\<open>map_of\<close> looks a key up,
  \<open>AList.update\<close> replaces a key in place or appends a new one, as a dict does).
\<close>

type_synonym cell = "real option"

record frame =
  time_name :: "string option"
  stamps :: "int list"
  cols :: "(string \<times> cell list) list"

definition nrows :: "frame \<Rightarrow> nat" where
  "nrows df = length (stamps df)"

text \<open>The hour of day of a timestamp (\<^verbatim>\<open>.dt.hour\<close>).\<close>

definition hour_of :: "int \<Rightarrow> int" where
  "hour_of t = (t div 3600) mod 24"

section \<open>Gap length binning\<close>

text \<open>
  \<^verbatim>\<open>_default_config\<close> of \<^verbatim>\<open>SolarGapAnalyzer\<close>: the fields the analyser reads when binning.
\<close>

record config =
  gap_length_bins :: "int list"
  gap_length_labels :: "string list"
  min_gap_size :: int
  max_gap_size :: int

definition default_config :: config where
  "default_config = \<lparr>
     gap_length_bins = [1, 2, 3, 6, 12, 24, 48, 168, 1000],
     gap_length_labels = [''1h'', ''2h'', ''3h'', ''6h'', ''12h'', ''1d'', ''2d'', ''1w'', ''>1w''],
     min_gap_size = 1,
     max_gap_size = 1000 \<rparr>"

text \<open>
  \<^verbatim>\<open>np.histogram(a, bins=edges)\<close> for an explicit edge list. numpy refuses edges that
  decrease; otherwise it counts, for every edge but the last, the entries below it, and for
  the last edge the entries not above it, and returns the differences of neighbouring
  counts. So every bin is closed on the left and open on the right, but the last one, which
  is closed on both sides.
\<close>

fun increasing :: "int list \<Rightarrow> bool" where
  "increasing [] = True"
| "increasing [x] = True"
| "increasing (x # y # ys) = (x \<le> y \<and> increasing (y # ys))"

definition count_below :: "int list \<Rightarrow> int \<Rightarrow> int" where
  "count_below a v = int (length (filter (\<lambda>x. x < v) a))"

definition count_upto :: "int list \<Rightarrow> int \<Rightarrow> int" where
  "count_upto a v = int (length (filter (\<lambda>x. x \<le> v) a))"

fun cum_counts :: "int list \<Rightarrow> int list \<Rightarrow> int list" where
  "cum_counts a [] = []"
| "cum_counts a [v] = [count_upto a v]"
| "cum_counts a (v # w # vs) = count_below a v # cum_counts a (w # vs)"

fun diff :: "int list \<Rightarrow> int list" where
  "diff [] = []"
| "diff [x] = []"
| "diff (x # y # ys) = (y - x) # diff (y # ys)"

definition histogram :: "int list \<Rightarrow> int list \<Rightarrow> py_error + int list" where
  "histogram a edges =
     (if increasing edges then Inr (diff (cum_counts a edges))
      else Inl (ValueError ''bins must increase monotonically''))"

text \<open>
  \<^verbatim>\<open>_bin_gap_lengths\<close>: one entry per bin, \<^verbatim>\<open>distribution[labels[i]] = int(hist[i])\<close> for
  \<^verbatim>\<open>i in range(len(bins) - 1)\<close>. Reading a label past the end of the label list raises
  \<^verbatim>\<open>IndexError\<close>.
\<close>

fun fill_distribution ::
  "string list \<Rightarrow> int list \<Rightarrow> nat list \<Rightarrow> (string \<times> int) list \<Rightarrow> py_error + (string \<times> int) list"
where
  "fill_distribution labels hist [] d = Inr d"
| "fill_distribution labels hist (i # is) d =
     (if i < length labels
      then fill_distribution labels hist is (AList.update (labels ! i) (hist ! i) d)
      else Inl IndexError)"

definition bin_gap_lengths :: "config \<Rightarrow> int list \<Rightarrow> py_error + (string \<times> int) list" where
  "bin_gap_lengths cfg gap_lengths =
     (case histogram gap_lengths (gap_length_bins cfg) of
        Inl e \<Rightarrow> Inl e
      | Inr hist \<Rightarrow>
          fill_distribution (gap_length_labels cfg) hist
            [0 ..< length (gap_length_bins cfg) - 1] [])"

text \<open>The number of gap lengths in the half-open range \<open>[lo, hi)\<close>, and in the closed one.\<close>

definition count_in :: "int \<Rightarrow> int \<Rightarrow> int list \<Rightarrow> int" where
  "count_in lo hi xs = int (length (filter (\<lambda>x. lo \<le> x \<and> x < hi) xs))"

definition count_within :: "int \<Rightarrow> int \<Rightarrow> int list \<Rightarrow> int" where
  "count_within lo hi xs = int (length (filter (\<lambda>x. lo \<le> x \<and> x \<le> hi) xs))"

lemma count_below_diff:
  "lo \<le> hi \<Longrightarrow> count_below xs hi - count_below xs lo = count_in lo hi xs"
  by (induction xs) (auto simp: count_below_def count_in_def)

lemma count_upto_diff:
  "lo \<le> hi \<Longrightarrow> count_upto xs hi - count_below xs lo = count_within lo hi xs"
  by (induction xs) (auto simp: count_below_def count_upto_def count_within_def)

lemma histogram_default:
  "histogram gl (gap_length_bins default_config) =
     Inr [count_in 1 2 gl, count_in 2 3 gl, count_in 3 6 gl, count_in 6 12 gl,
          count_in 12 24 gl, count_in 24 48 gl, count_in 48 168 gl, count_within 168 1000 gl]"
  by (simp add: histogram_def default_config_def
      count_below_diff [symmetric] count_upto_diff [symmetric])

lemma upt_8: "[0 ..< 8] = [0, 1, 2, 3, 4, 5, 6, 7]"
  by (simp add: upt_rec)

lemma bin_gap_lengths_default:
  "bin_gap_lengths default_config gl =
     Inr [(''1h'', count_in 1 2 gl), (''2h'', count_in 2 3 gl), (''3h'', count_in 3 6 gl),
          (''6h'', count_in 6 12 gl), (''12h'', count_in 12 24 gl), (''1d'', count_in 24 48 gl),
          (''2d'', count_in 48 168 gl), (''1w'', count_within 168 1000 gl)]"
proof -
  have labels: "gap_length_labels default_config =
      [''1h'', ''2h'', ''3h'', ''6h'', ''12h'', ''1d'', ''2d'', ''1w'', ''>1w'']"
    and edges: "length (gap_length_bins default_config) - 1 = 8"
    by (simp_all add: default_config_def)
  show ?thesis
    unfolding bin_gap_lengths_def histogram_default labels edges upt_8
    by simp
qed

lemma count_split:
  "a \<le> b \<Longrightarrow> b \<le> c \<Longrightarrow> count_in a b xs + count_within b c xs = count_within a c xs"
  by (induction xs) (auto simp: count_in_def count_within_def)

lemma counts_total:
  "count_in 1 2 gl + count_in 2 3 gl + count_in 3 6 gl + count_in 6 12 gl + count_in 12 24 gl
     + count_in 24 48 gl + count_in 48 168 gl + count_within 168 1000 gl
   = count_within 1 1000 gl"
proof -
  have "count_in 48 168 gl + count_within 168 1000 gl = count_within 48 1000 gl"
    by (rule count_split) simp_all
  moreover have "count_in 24 48 gl + count_within 48 1000 gl = count_within 24 1000 gl"
    by (rule count_split) simp_all
  moreover have "count_in 12 24 gl + count_within 24 1000 gl = count_within 12 1000 gl"
    by (rule count_split) simp_all
  moreover have "count_in 6 12 gl + count_within 12 1000 gl = count_within 6 1000 gl"
    by (rule count_split) simp_all
  moreover have "count_in 3 6 gl + count_within 6 1000 gl = count_within 3 1000 gl"
    by (rule count_split) simp_all
  moreover have "count_in 2 3 gl + count_within 3 1000 gl = count_within 2 1000 gl"
    by (rule count_split) simp_all
  moreover have "count_in 1 2 gl + count_within 2 1000 gl = count_within 1 1000 gl"
    by (rule count_split) simp_all
  ultimately show ?thesis by linarith
qed

text \<open>
  Claim C10 (gap-length binning invariant). With the default configuration, for every list
  of gap lengths, \<^verbatim>\<open>_bin_gap_lengths\<close> returns a distribution whose keys are exactly the
  eight labels 1h, 2h, 3h, 6h, 12h, 1d, 2d, 1w, in this order; the ninth configured label
  \<^verbatim>\<open>>1w\<close> is never a key. The count of a label is the number of gap lengths in its bin,
  closed on the left and open on the right, but for the last bin, 1w, which is \<open>[168, 1000]\<close>.
  The counts add up to the number of gap lengths within \<open>[1, 1000]\<close>: a gap length outside
  that range is counted in no bin, so the sum can be less than the number of gaps (the list
  \<open>[0, 5, 1001]\<close> has three gaps and one counted). A gap of exactly 6 is counted under 6h
  and one of exactly 168 under 1w.
\<close>

theorem bin_gap_lengths_invariant:
  "(\<exists>d. bin_gap_lengths default_config gl = Inr d
     \<and> map fst d = [''1h'', ''2h'', ''3h'', ''6h'', ''12h'', ''1d'', ''2d'', ''1w'']
     \<and> ''>1w'' \<notin> set (map fst d)
     \<and> map snd d = [count_in 1 2 gl, count_in 2 3 gl, count_in 3 6 gl, count_in 6 12 gl,
          count_in 12 24 gl, count_in 24 48 gl, count_in 48 168 gl, count_within 168 1000 gl]
     \<and> sum_list (map snd d) = count_within 1 1000 gl
     \<and> sum_list (map snd d) \<le> int (length gl))
   \<and> bin_gap_lengths default_config [0, 5, 1001] =
     Inr [(''1h'', 0), (''2h'', 0), (''3h'', 1), (''6h'', 0), (''12h'', 0), (''1d'', 0),
          (''2d'', 0), (''1w'', 0)]
   \<and> bin_gap_lengths default_config [6] =
     Inr [(''1h'', 0), (''2h'', 0), (''3h'', 0), (''6h'', 1), (''12h'', 0), (''1d'', 0),
          (''2d'', 0), (''1w'', 0)]
   \<and> bin_gap_lengths default_config [168] =
     Inr [(''1h'', 0), (''2h'', 0), (''3h'', 0), (''6h'', 0), (''12h'', 0), (''1d'', 0),
          (''2d'', 0), (''1w'', 1)]"
proof -
  have "count_within 1 1000 gl \<le> int (length gl)"
    by (simp add: count_within_def)
  then have general: "\<exists>d. bin_gap_lengths default_config gl = Inr d
     \<and> map fst d = [''1h'', ''2h'', ''3h'', ''6h'', ''12h'', ''1d'', ''2d'', ''1w'']
     \<and> ''>1w'' \<notin> set (map fst d)
     \<and> map snd d = [count_in 1 2 gl, count_in 2 3 gl, count_in 3 6 gl, count_in 6 12 gl,
          count_in 12 24 gl, count_in 24 48 gl, count_in 48 168 gl, count_within 168 1000 gl]
     \<and> sum_list (map snd d) = count_within 1 1000 gl
     \<and> sum_list (map snd d) \<le> int (length gl)"
    using counts_total [of gl] by (simp add: bin_gap_lengths_default)
  have outside: "bin_gap_lengths default_config [0, 5, 1001] =
     Inr [(''1h'', 0), (''2h'', 0), (''3h'', 1), (''6h'', 0), (''12h'', 0), (''1d'', 0),
          (''2d'', 0), (''1w'', 0)]"
    by (simp add: bin_gap_lengths_default count_in_def count_within_def)
  have six: "bin_gap_lengths default_config [6] =
     Inr [(''1h'', 0), (''2h'', 0), (''3h'', 0), (''6h'', 1), (''12h'', 0), (''1d'', 0),
          (''2d'', 0), (''1w'', 0)]"
    by (simp add: bin_gap_lengths_default count_in_def count_within_def)
  have week: "bin_gap_lengths default_config [168] =
     Inr [(''1h'', 0), (''2h'', 0), (''3h'', 0), (''6h'', 0), (''12h'', 0), (''1d'', 0),
          (''2d'', 0), (''1w'', 1)]"
    by (simp add: bin_gap_lengths_default count_in_def count_within_def)
  from general outside six week show ?thesis by blast
qed

section \<open>Gap detection\<close>

text \<open>
  A gap record of \<^verbatim>\<open>find_gaps_generic\<close>. The times are those of the frame's timestamp column,
  or \<open>None\<close> when the time column asked for is not a column of the frame.
\<close>

record gap =
  start_index :: int
  end_index :: int
  length_gap :: int
  start_time :: "int option"
  end_time :: "int option"

fun nth_opt :: "'a list \<Rightarrow> int \<Rightarrow> 'a option" where
  "nth_opt xs i = (if 0 \<le> i \<and> i < int (length xs) then Some (xs ! nat i) else None)"

text \<open>\<^verbatim>\<open>df.iloc[i][time_col] if time_col in df.columns else None\<close>\<close>

definition time_at :: "frame \<Rightarrow> string \<Rightarrow> int \<Rightarrow> int option" where
  "time_at df time_col i = (if time_name df = Some time_col then nth_opt (stamps df) i else None)"

text \<open>\<^verbatim>\<open>s.shift(1).fillna(False)\<close> on a boolean series: the first entry has no predecessor.\<close>

definition shift_fill :: "bool list \<Rightarrow> bool list" where
  "shift_fill s = take (length s) (False # s)"

fun zip3 :: "'a list \<Rightarrow> 'b list \<Rightarrow> 'c list \<Rightarrow> ('a \<times> 'b \<times> 'c) list" where
  "zip3 xs ys zs = zip xs (zip ys zs)"

text \<open>
  The loop over \<^verbatim>\<open>enumerate(zip(is_missing, gap_starts, gap_ends))\<close>. Its state is
  \<^verbatim>\<open>current_gap_start\<close>, \<^verbatim>\<open>current_gap_length\<close> and the gaps found so far.
\<close>

type_synonym gap_state = "int option \<times> int \<times> gap list"

fun gap_step :: "frame \<Rightarrow> string \<Rightarrow> int \<Rightarrow> bool \<times> bool \<times> bool \<Rightarrow> gap_state \<Rightarrow> gap_state" where
  "gap_step df time_col i (missing, gap_start, gap_end) (current_gap_start, current_gap_length, gaps) =
     (if gap_start then (Some i, 1, gaps)
      else if missing \<and> current_gap_start \<noteq> None
        then (current_gap_start, current_gap_length + 1, gaps)
      else if gap_end \<and> current_gap_start \<noteq> None
        then (case current_gap_start of
                Some s \<Rightarrow>
                  (None, 0, gaps @ [\<lparr> start_index = s, end_index = i - 1,
                     length_gap = current_gap_length,
                     start_time = time_at df time_col s,
                     end_time = time_at df time_col (i - 1) \<rparr>])
              | None \<Rightarrow> (current_gap_start, current_gap_length, gaps))
      else (current_gap_start, current_gap_length, gaps))"

fun gap_loop ::
  "frame \<Rightarrow> string \<Rightarrow> int \<Rightarrow> (bool \<times> bool \<times> bool) list \<Rightarrow> gap_state \<Rightarrow> gap_state" where
  "gap_loop df time_col i [] st = st"
| "gap_loop df time_col i (r # rs) st = gap_loop df time_col (i + 1) rs (gap_step df time_col i r st)"

definition find_gaps_generic :: "frame \<Rightarrow> string \<Rightarrow> string \<Rightarrow> gap list" where
  "find_gaps_generic df column time_col =
     (case map_of (cols df) column of
        None \<Rightarrow> []
      | Some series \<Rightarrow>
          (let is_missing = map (\<lambda>c. c = None) series;
               is_not_missing = map (\<lambda>m. m = False) is_missing;
               gap_starts = map2 (\<and>) is_missing (shift_fill is_not_missing);
               gap_ends = map2 (\<and>) is_not_missing (shift_fill is_missing)
           in case gap_loop df time_col 0 (zip3 is_missing gap_starts gap_ends) (None, 0, []) of
                (Some s, current_gap_length, gaps) \<Rightarrow>
                  gaps @ [\<lparr> start_index = s, end_index = int (nrows df) - 1,
                     length_gap = current_gap_length,
                     start_time = time_at df time_col s,
                     end_time = time_at df time_col (int (nrows df) - 1) \<rparr>]
              | (None, current_gap_length, gaps) \<Rightarrow> gaps))"

text \<open>
  A frame with one power column \<open>p\<close> and hourly timestamps, for the examples below.
\<close>

definition series_frame :: "cell list \<Rightarrow> frame" where
  "series_frame series = \<lparr> time_name = Some ''t'',
     stamps = map (\<lambda>i. 3600 * int i) [0 ..< length series],
     cols = [(''p'', series)] \<rparr>"

lemma shift_fill_replicate: "shift_fill (replicate n False) = replicate n False"
  by (cases n) (simp_all add: shift_fill_def flip: replicate_append_same)

lemma length_shift_fill: "length (shift_fill s) = length s"
  by (simp add: shift_fill_def)

lemma map2_False: "length ys = n \<Longrightarrow> map2 (\<and>) (replicate n False) ys = replicate n False"
proof (induction n arbitrary: ys)
  case 0
  then show ?case by simp
next
  case (Suc n)
  then show ?case by (cases ys) simp_all
qed

lemma gap_loop_idle:
  "gap_loop df tc i (replicate n (True, False, False)) (None, 0, []) = (None, 0, [])"
  by (induction n arbitrary: i) simp_all

text \<open>
  Claim C3 (gap detector edge cases) says that leading and trailing missing runs are
  reported, that an all-missing series yields exactly one gap from index 0 to the last index,
  and that an empty series yields no gap. The code reports a run only from a row that is
  missing and whose predecessor is present (\<^verbatim>\<open>gap_starts\<close>); the first row has no
  predecessor, so a run that starts at row 0 never opens a gap. The theorem evaluates the
  code there: a series of \<open>n\<close> missing values, whatever \<open>n\<close>, yields no gap at all, and in
  the series NaN, NaN, 5, NaN, 2 the leading run of two is dropped and only the gap at
  row 3 is reported.
\<close>

theorem find_gaps_generic_leading_run:
  "find_gaps_generic (series_frame (replicate n None)) ''p'' ''t'' = []
   \<and> find_gaps_generic (series_frame [None, None, Some 5, None, Some 2]) ''p'' ''t'' =
       [\<lparr> start_index = 3, end_index = 3, length_gap = 1,
          start_time = Some 10800, end_time = Some 10800 \<rparr>]"
proof
  show "find_gaps_generic (series_frame (replicate n None)) ''p'' ''t'' = []"
    by (simp add: find_gaps_generic_def series_frame_def shift_fill_replicate Let_def
        map2_False length_shift_fill gap_loop_idle)
  show "find_gaps_generic (series_frame [None, None, Some 5, None, Some 2]) ''p'' ''t'' =
       [\<lparr> start_index = 3, end_index = 3, length_gap = 1,
          start_time = Some 10800, end_time = Some 10800 \<rparr>]"
    by (simp add: find_gaps_generic_def series_frame_def shift_fill_def time_at_def
        nrows_def upt_rec)
qed

section \<open>The gap-analysis document and the resolution of the method name\<close>

text \<open>
  The engine reads the gap-analysis result from a JSON file (\<^verbatim>\<open>load_gap_analysis\<close>), so the
  document is a JSON value. An object is the association list of its members.
\<close>

datatype json =
    JNull
  | JBool bool
  | JNum real
  | JStr string
  | JList "json list"
  | JObj "(string \<times> json) list"

text \<open>Python's truth value of a JSON value: \<^verbatim>\<open>None\<close>, \<^verbatim>\<open>False\<close>, zero and the empty
  string, list and dict are false.\<close>

fun truthy :: "json \<Rightarrow> bool" where
  "truthy JNull = False"
| "truthy (JBool b) = b"
| "truthy (JNum x) = (x \<noteq> 0)"
| "truthy (JStr s) = (s \<noteq> [])"
| "truthy (JList xs) = (xs \<noteq> [])"
| "truthy (JObj kvs) = (kvs \<noteq> [])"

text \<open>\<^verbatim>\<open>d.get(key, default)\<close>: only a dict has the attribute \<^verbatim>\<open>get\<close>.\<close>

fun dict_get :: "json \<Rightarrow> string \<Rightarrow> json \<Rightarrow> py_error + json" where
  "dict_get (JObj kvs) k dflt = Inr (case map_of kvs k of Some v \<Rightarrow> v | None \<Rightarrow> dflt)"
| "dict_get _ k dflt = Inl AttributeError"

text \<open>Sequencing of computations that may raise.\<close>

fun bind_err :: "'e + 'a \<Rightarrow> ('a \<Rightarrow> 'e + 'b) \<Rightarrow> 'e + 'b" where
  "bind_err (Inl e) f = Inl e"
| "bind_err (Inr v) f = f v"

text \<open>\<^verbatim>\<open>xs[0]\<close> on the value of \<^verbatim>\<open>primary_methods\<close>, which is a list where the code
  subscripts it.\<close>

fun first_item :: "json \<Rightarrow> py_error + json" where
  "first_item (JList (x # xs)) = Inr x"
| "first_item (JList []) = Inl IndexError"
| "first_item _ = Inl (TypeError ''not subscriptable'')"

text \<open>
  \<^verbatim>\<open>get_recommended_method\<close>. The expression
  \<^verbatim>\<open>A or B[0] if isinstance(C, list) else 'spline_interpolation'\<close> is, by Python's grammar,
  the conditional expression \<^verbatim>\<open>(A or B[0]) if isinstance(C, list) else 'spline_interpolation'\<close>:
  the test is evaluated first, and \<^verbatim>\<open>primary_method\<close> is read only when
  \<^verbatim>\<open>primary_methods\<close> is a list.
\<close>

definition get_recommended_method :: "json \<Rightarrow> string option \<Rightarrow> py_error + json" where
  "get_recommended_method gap_analysis user_method =
     (let from_document =
        bind_err (dict_get gap_analysis ''recommendations'' (JObj [])) (\<lambda>recommendations.
        bind_err (dict_get recommendations ''primary_methods'' JNull) (\<lambda>tested.
          case tested of
            JList _ \<Rightarrow>
              bind_err (dict_get recommendations ''primary_method'' JNull) (\<lambda>primary.
                if truthy primary then Inr primary
                else
                  bind_err (dict_get recommendations ''primary_methods''
                              (JList [JStr ''spline_interpolation''])) first_item)
          | _ \<Rightarrow> Inr (JStr ''spline_interpolation'')))
      in case user_method of
           Some m \<Rightarrow> if m \<noteq> [] then Inr (JStr m) else from_document
         | None \<Rightarrow> from_document)"

text \<open>
  The recommendations block that \<^verbatim>\<open>recommend_methods_generic\<close> writes has the key
  \<^verbatim>\<open>primary_method\<close> and no key \<^verbatim>\<open>primary_methods\<close>.
\<close>

definition recommends :: "string \<Rightarrow> json" where
  "recommends m = JObj [(''recommendations'', JObj [(''primary_method'', JStr m)])]"

lemma get_recommended_method_no_list:
  "map_of r ''primary_methods'' = None \<Longrightarrow>
   get_recommended_method (JObj [(''recommendations'', JObj r)]) None
     = Inr (JStr ''spline_interpolation'')"
  by (simp add: get_recommended_method_def Let_def)

text \<open>
  Claim C1 (method resolution) says that without an override \<^verbatim>\<open>get_recommended_method\<close>
  returns the recommendations' \<^verbatim>\<open>primary_method\<close> when that key is present, and
  \<^verbatim>\<open>spline_interpolation\<close> only when neither is present. The code reads \<^verbatim>\<open>primary_method\<close>
  only under the test that \<^verbatim>\<open>primary_methods\<close> is a list. The theorem evaluates the code
  on a document that recommends \<^verbatim>\<open>gaussian_process\<close> under \<^verbatim>\<open>primary_method\<close>: without an
  override the result is \<^verbatim>\<open>spline_interpolation\<close>. With an override the override is
  returned, and with a list under \<^verbatim>\<open>primary_methods\<close> the \<^verbatim>\<open>primary_method\<close> is.
\<close>

theorem get_recommended_method_ignores_primary:
  "get_recommended_method (recommends ''gaussian_process'') None
     = Inr (JStr ''spline_interpolation'')
   \<and> get_recommended_method (recommends ''gaussian_process'') (Some ''physics_based_model'')
     = Inr (JStr ''physics_based_model'')
   \<and> get_recommended_method
       (JObj [(''recommendations'', JObj [(''primary_method'', JStr ''gaussian_process''),
                (''primary_methods'', JList [JStr ''physics_based_model''])])]) None
     = Inr (JStr ''gaussian_process'')"
  by (simp add: get_recommended_method_def recommends_def Let_def)

section \<open>Binary64 numbers\<close>



text \<open>
  The recommender compares a count with \<^verbatim>\<open>total_gaps * 0.7\<close>, and the validation split
  truncates \<^verbatim>\<open>len(complete_indices) * 0.15\<close>: products of a Python \<^verbatim>\<open>int\<close> with a float
  literal. Python converts the integer to the nearest binary64 number and rounds the exact
  product to the nearest binary64 number again, ties to the even significand. Both
  operands being determined by the integer, the product is modelled exactly.

  \<open>round_half_even N s\<close> is \<open>N / 2 ^ s\<close> rounded to the nearest integer, ties to even, and
  \<open>round53 N\<close> is the integer \<open>N\<close> rounded to 53 significant bits. A constant is the pair of
  its significand \<open>m\<close> and its exponent \<open>e\<close>, of value \<open>m / 2 ^ e\<close>; the constants below are
  the binary64 numbers that the literals \<^verbatim>\<open>0.7\<close>, \<^verbatim>\<open>0.3\<close>, \<^verbatim>\<open>0.2\<close>, \<^verbatim>\<open>0.5\<close> and \<^verbatim>\<open>0.15\<close>
  denote. The model holds in the range of binary64 (integers below \<open>2 ^ 1023\<close> in
  magnitude; beyond it the conversion raises \<^verbatim>\<open>OverflowError\<close>).
\<close>

definition round_half_even :: "int \<Rightarrow> nat \<Rightarrow> int" where
  "round_half_even N s =
     (let q = N div 2 ^ s; r = N mod 2 ^ s
      in if 2 * r > 2 ^ s \<or> (2 * r = 2 ^ s \<and> odd q) then q + 1 else q)"

definition round53 :: "int \<Rightarrow> int" where
  "round53 N =
     (let a = \<bar>N\<bar>; s = nat (bitlen a - 53)
      in sgn N * (round_half_even a s * 2 ^ s))"

type_synonym double = "int \<times> nat"


definition int_times_double :: "int \<Rightarrow> double \<Rightarrow> real" where
  "int_times_double n c = real_of_int (round53 (round53 n * fst c)) / 2 ^ snd c"

definition seven_tenths :: double where
  "seven_tenths = (6305039478318694, 53)"

definition three_tenths :: double where
  "three_tenths = (5404319552844595, 54)"

definition two_tenths :: double where
  "two_tenths = (7205759403792794, 55)"

definition one_half :: double where
  "one_half = (1, 1)"

definition fifteen_hundredths :: double where
  "fifteen_hundredths = (5404319552844595, 55)"

text \<open>The test \<^verbatim>\<open>part > whole * c\<close> of an integer against such a product.\<close>

definition exceeds :: "int \<Rightarrow> int \<Rightarrow> double \<Rightarrow> bool" where
  "exceeds part whole c = (real_of_int part > int_times_double whole c)"

text \<open>
  Rounding to 53 bits leaves small integers alone and moves no integer by more than
  \<open>2\<^sup>-\<^sup>5\<^sup>3\<close> of itself.
\<close>

lemma round_half_even_error:
  "\<bar>round_half_even N s * 2 ^ s - N\<bar> * 2 \<le> 2 ^ s"
proof -
  define q where "q = N div 2 ^ s"
  define r where "r = N mod 2 ^ s"
  have N: "N = q * 2 ^ s + r" by (simp add: q_def r_def div_mult_mod_eq)
  have r: "0 \<le> r" "r < 2 ^ s" by (simp_all add: r_def)
  have "round_half_even N s = (if 2 * r > 2 ^ s \<or> (2 * r = 2 ^ s \<and> odd q) then q + 1 else q)"
    by (simp add: round_half_even_def q_def r_def Let_def)
  then show ?thesis
    using r by (auto simp: N algebra_simps)
qed

lemma round_half_even_exact:
  assumes "2 * \<bar>N - j * 2 ^ s\<bar> < 2 ^ s"
  shows "round_half_even N s = j"
proof -
  define d where "d = N - j * 2 ^ s"
  have N: "N = j * 2 ^ s + d" by (simp add: d_def)
  from assms have d: "2 * \<bar>d\<bar> < 2 ^ s" by (simp add: d_def)
  show ?thesis
  proof (cases "0 \<le> d")
    case True
    with d have "d < 2 ^ s" by linarith
    with True have "N div 2 ^ s = j" "N mod 2 ^ s = d"
      by (auto simp: N intro: int_div_pos_eq int_mod_pos_eq)
    with d True show ?thesis by (simp add: round_half_even_def)
  next
    case False
    let ?r = "2 ^ s + d"
    have N': "N = (j - 1) * 2 ^ s + ?r" by (simp add: N algebra_simps)
    from False d have r: "0 \<le> ?r" "?r < 2 ^ s" by linarith+
    have "N div 2 ^ s = j - 1"
      by (rule int_div_pos_eq [where r = ?r]) (use r in \<open>simp_all add: N algebra_simps\<close>)
    moreover have "N mod 2 ^ s = ?r"
      by (rule int_mod_pos_eq [where q = "j - 1"]) (use r in \<open>simp_all add: N algebra_simps\<close>)
    ultimately have "N div 2 ^ s = j - 1" "N mod 2 ^ s = ?r" .
    with d False show ?thesis by (simp add: round_half_even_def)
  qed
qed

lemma round_half_even_zero: "round_half_even N 0 = N"
  by (simp add: round_half_even_def)

lemma round53_small: "0 \<le> N \<Longrightarrow> N < 2 ^ 53 \<Longrightarrow> round53 N = N"
proof -
  assume "0 \<le> N" "N < 2 ^ 53"
  then have "bitlen \<bar>N\<bar> \<le> 53"
    by (simp add: bitlen_le_iff_power)
  then have "nat (bitlen \<bar>N\<bar> - 53) = 0" by simp
  with \<open>0 \<le> N\<close> show ?thesis
    by (cases "N = 0") (simp_all add: round53_def Let_def round_half_even_zero)
qed

lemma round53_error:
  assumes "0 < N"
  shows "\<bar>round53 N - N\<bar> * 2 ^ 53 \<le> N"
proof (cases "bitlen N \<le> 53")
  case True
  then have "N < 2 ^ 53"
    using bitlen_le_iff_power [of N 53] by simp
  with assms show ?thesis by (simp add: round53_small)
next
  case False
  define s where "s = nat (bitlen N - 53)"
  from False have len: "nat (bitlen N - 1) = s + 52"
    by (simp add: s_def)
  from bitlen_bounds [OF assms] have "(2::int) ^ (s + 52) \<le> N"
    by (simp add: len)
  moreover have "\<bar>round_half_even N s * 2 ^ s - N\<bar> * 2 \<le> 2 ^ s"
    by (rule round_half_even_error)
  then have "\<bar>round_half_even N s * 2 ^ s - N\<bar> * 2 * 2 ^ 52 \<le> 2 ^ s * 2 ^ 52"
    by (rule mult_right_mono) simp
  ultimately have "\<bar>round_half_even N s * 2 ^ s - N\<bar> * 2 ^ 53 \<le> N"
    by (simp add: power_add)
  moreover from assms have "round53 N = round_half_even N s * 2 ^ s"
    by (simp add: round53_def Let_def s_def)
  ultimately show ?thesis by simp
qed

lemma round53_exact:
  assumes "0 < N" and "2 * \<bar>N - j * 2 ^ nat (bitlen N - 53)\<bar> < 2 ^ nat (bitlen N - 53)"
  shows "round53 N = j * 2 ^ nat (bitlen N - 53)"
  using assms by (simp add: round53_def Let_def round_half_even_exact)

text \<open>
  \<^verbatim>\<open>int(n * 0.15)\<close> truncates the product, and on fewer than \<open>2\<^sup>3\<^sup>2\<close> rows the truncated
  binary64 product is the truncated exact one, \<open>3n div 20\<close>: where 15% of \<open>n\<close> is an integer
  the product is that integer, and elsewhere the rounding does not reach the next integer.
\<close>

lemma fifteen_percent_low:
  fixes N R a k r :: int
  assumes "(N - R) * 9007199254740992 \<le> N"
    and "20 * N = a * 108086391056891900"
    and "3 * a = 20 * k + r" and "1 \<le> r" and "0 \<le> a" and "a < 4294967296"
  shows "k * 36028797018963968 \<le> R"
proof -
  from assms(1) have "N * 9007199254740991 \<le> R * 9007199254740992"
    by (simp add: algebra_simps)
  then have "20 * N * 9007199254740991 \<le> 20 * R * 9007199254740992" by simp
  then have "a * 108086391056891900 * 9007199254740991 \<le> 20 * R * 9007199254740992"
    using assms(2) by simp
  moreover have "20 * k = 3 * a - r" using assms(3) by simp
  ultimately show ?thesis using assms(4-6) by (simp add: algebra_simps)
qed

lemma fifteen_percent_high:
  fixes N R a k r :: int
  assumes "(R - N) * 9007199254740992 \<le> N"
    and "20 * N = a * 108086391056891900"
    and "3 * a = 20 * k + r" and "r \<le> 19" and "0 \<le> a" and "a < 4294967296"
  shows "R < (k + 1) * 36028797018963968"
proof -
  from assms(1) have "R * 9007199254740992 \<le> N * 9007199254740993"
    by (simp add: algebra_simps)
  then have "20 * R * 9007199254740992 \<le> 20 * N * 9007199254740993" by simp
  then have "20 * R * 9007199254740992 \<le> a * 108086391056891900 * 9007199254740993"
    using assms(2) by simp
  moreover have "20 * k = 3 * a - r" using assms(3) by simp
  ultimately show ?thesis using assms(4-6) by (simp add: algebra_simps)
qed

lemma fifteen_percent_exact:
  assumes "n < 2 ^ 32"
  shows "\<lfloor>int_times_double (int n) fifteen_hundredths\<rfloor> = int ((3 * n) div 20)"
proof -
  define a where "a = int n"
  define N where "N = a * 5404319552844595"
  define R where "R = round53 N"
  have a: "0 \<le> a" "a < 2 ^ 32"
    using assms by (simp_all add: a_def)
  then have "round53 a = a" by (intro round53_small) simp_all
  then have product: "int_times_double (int n) fifteen_hundredths = real_of_int R / real_of_int (2 ^ 55)"
    by (simp add: int_times_double_def fifteen_hundredths_def R_def N_def a_def)
  have floor: "\<lfloor>real_of_int R / real_of_int (2 ^ 55)\<rfloor> = R div 2 ^ 55"
    by (rule floor_divide_of_int_eq)
  have twenty: "20 * N = a * 108086391056891900" by (simp add: N_def)
  have "R div 2 ^ 55 = (3 * a) div 20"
  proof (cases "(3 * a) mod 20 = 0")
    case False
    define k where "k = (3 * a) div 20"
    define r where "r = (3 * a) mod 20"
    have parts: "3 * a = 20 * k + r" by (simp add: k_def r_def)
    have r: "1 \<le> r" "r \<le> 19"
      using False pos_mod_sign [of 20 "3 * a"] pos_mod_bound [of 20 "3 * a"]
      by (simp_all add: r_def)
    from a False have "0 < N" by (cases "a = 0") (simp_all add: N_def)
    from round53_error [OF this] have err: "\<bar>R - N\<bar> * 9007199254740992 \<le> N"
      by (simp add: R_def)
    have "(R - N) * 9007199254740992 \<le> \<bar>R - N\<bar> * 9007199254740992"
      and "(N - R) * 9007199254740992 \<le> \<bar>R - N\<bar> * 9007199254740992"
      by (rule mult_right_mono; simp)+
    with err have up: "(R - N) * 9007199254740992 \<le> N"
      and down: "(N - R) * 9007199254740992 \<le> N"
      by linarith+
    from a have bound: "a < 4294967296" by simp
    have low: "k * 36028797018963968 \<le> R"
      using down twenty parts r(1) a(1) bound by (rule fifteen_percent_low)
    have high: "R < (k + 1) * 36028797018963968"
      using up twenty parts r(2) a(1) bound by (rule fifteen_percent_high)
    have "R div 36028797018963968 = k"
      by (rule int_div_pos_eq [where r = "R - k * 36028797018963968"]) (use low high in simp_all)
    then show ?thesis by (simp add: k_def)
  next
    case True
    then have "a mod 20 = 0" by presburger
    then obtain j where j: "a = 20 * j" by (auto simp: mod_eq_0_iff_dvd)
    show ?thesis
    proof (cases "j = 0")
      case True
      then show ?thesis by (simp add: j R_def N_def round53_small)
    next
      case False
      with a j have jpos: "0 < j" by simp
      have Nj: "N = 3 * j * 2 ^ 55 - 4 * j" by (simp add: N_def j)
      from jpos have Npos: "0 < N" and Nlow: "2 ^ 55 \<le> N"
        by (simp_all add: Nj)
      from a have Nhigh: "N < 2 ^ 85" by (simp add: N_def)
      define s where "s = nat (bitlen N - 53)"
      have "bitlen N \<le> 85"
        using Nhigh bitlen_le_iff_power [of N 85] by simp
      moreover have "\<not> bitlen N \<le> 55"
        using Nlow bitlen_le_iff_power [of N 55] by simp
      ultimately have s: "s \<le> 32" "3 \<le> s" and len: "nat (bitlen N) = s + 53"
        by (simp_all add: s_def)
      from bitlen_bounds [OF Npos] have "N < 2 ^ (s + 53)" by (simp add: len)
      then have "N < 2 ^ s * 9007199254740992" by (simp add: power_add)
      with jpos have small: "8 * j < 2 ^ s" by (simp add: Nj)
      have shift: "(2::int) ^ 55 = 2 ^ (55 - s) * 2 ^ s"
        using s by (simp flip: power_add)
      have "round53 N = (3 * j * 2 ^ (55 - s)) * 2 ^ nat (bitlen N - 53)"
      proof (rule round53_exact [OF Npos])
        have "N - 3 * j * 2 ^ (55 - s) * 2 ^ s = - (4 * j)"
          using shift by (simp add: Nj algebra_simps)
        with small jpos show "2 * \<bar>N - 3 * j * 2 ^ (55 - s) * 2 ^ nat (bitlen N - 53)\<bar>
            < 2 ^ nat (bitlen N - 53)"
          by (simp add: s_def [symmetric])
      qed
      then have "R = 3 * j * 2 ^ 55"
        using shift by (simp add: R_def s_def [symmetric] algebra_simps)
      then show ?thesis by (simp add: j)
    qed
  qed
  with product floor show ?thesis
    by (simp add: a_def del: of_int_power of_int_numeral)
qed

text \<open>
  The tests against \<^verbatim>\<open>total * 0.7\<close>, \<^verbatim>\<open>total * 0.3\<close> and \<^verbatim>\<open>total * 0.2\<close> agree with the
  exact percentages away from equality: a count strictly above the percentage passes the
  test, and a count strictly below it fails. At equality the rounding decides.
\<close>

lemma exceeds_iff:
  assumes "0 \<le> t" and "t < 2 ^ 53"
  shows "exceeds s t (m, e) \<longleftrightarrow> round53 (t * m) < s * 2 ^ e"
proof -
  have "round53 t = t" using assms by (rule round53_small)
  then have "exceeds s t (m, e) \<longleftrightarrow>
      real_of_int (round53 (t * m)) / 2 ^ e < real_of_int s"
    by (simp add: exceeds_def int_times_double_def)
  also have "\<dots> \<longleftrightarrow> real_of_int (round53 (t * m)) < real_of_int s * 2 ^ e"
    by (simp add: divide_less_eq)
  also have "\<dots> \<longleftrightarrow> real_of_int (round53 (t * m)) < real_of_int (s * 2 ^ e)"
    by simp
  also have "\<dots> \<longleftrightarrow> round53 (t * m) < s * 2 ^ e"
    by (rule of_int_less_iff)
  finally show ?thesis .
qed

lemma round53_bounds:
  assumes "0 \<le> N"
  shows "N * 9007199254740991 \<le> round53 N * 9007199254740992"
    and "round53 N * 9007199254740992 \<le> N * 9007199254740993"
proof -
  have "\<bar>round53 N - N\<bar> * 2 ^ 53 \<le> N"
  proof (cases "N = 0")
    case True
    then show ?thesis by (simp add: round53_small)
  next
    case False
    with assms show ?thesis by (intro round53_error) simp
  qed
  then have err: "\<bar>round53 N - N\<bar> * 9007199254740992 \<le> N" by simp
  have "(round53 N - N) * 9007199254740992 \<le> \<bar>round53 N - N\<bar> * 9007199254740992"
    and "(N - round53 N) * 9007199254740992 \<le> \<bar>round53 N - N\<bar> * 9007199254740992"
    by (rule mult_right_mono; simp)+
  with err have "(round53 N - N) * 9007199254740992 \<le> N"
    and "(N - round53 N) * 9007199254740992 \<le> N"
    by linarith+
  then show "N * 9007199254740991 \<le> round53 N * 9007199254740992"
    and "round53 N * 9007199254740992 \<le> N * 9007199254740993"
    by (simp_all add: algebra_simps)
qed

lemma seven_tenths_above:
  assumes "0 \<le> t" and "t < 2 ^ 32" and "7 * t < 10 * s"
  shows "exceeds s t seven_tenths"
proof -
  let ?R = "round53 (t * 6305039478318694)"
  from assms(1) have "?R * 9007199254740992 \<le> t * 6305039478318694 * 9007199254740993"
    by (intro round53_bounds) simp
  then have "10 * ?R * 9007199254740992 \<le> t * 63050394783186940 * 9007199254740993"
    by simp
  moreover from assms(3) have "7 * t + 1 \<le> 10 * s" by simp
  ultimately have "?R < s * 9007199254740992"
    using assms(1,2) by (simp add: algebra_simps)
  then show ?thesis
    using assms(1,2) by (simp add: seven_tenths_def exceeds_iff)
qed

lemma seven_tenths_below:
  assumes "0 \<le> t" and "t < 2 ^ 32" and "exceeds s t seven_tenths"
  shows "7 * t \<le> 10 * s"
proof (rule ccontr)
  let ?R = "round53 (t * 6305039478318694)"
  assume "\<not> 7 * t \<le> 10 * s"
  then have less: "10 * s \<le> 7 * t - 1" by simp
  from assms have "?R < s * 9007199254740992"
    by (simp add: seven_tenths_def exceeds_iff)
  moreover from assms(1) have "t * 6305039478318694 * 9007199254740991 \<le> ?R * 9007199254740992"
    by (intro round53_bounds) simp
  then have "t * 63050394783186940 * 9007199254740991 \<le> 10 * ?R * 9007199254740992"
    by simp
  ultimately show False
    using less assms(1,2) by (simp add: algebra_simps)
qed

lemma three_tenths_above:
  assumes "0 \<le> t" and "t < 2 ^ 32" and "3 * t < 10 * s"
  shows "exceeds s t three_tenths"
proof -
  let ?R = "round53 (t * 5404319552844595)"
  from assms(1) have "?R * 9007199254740992 \<le> t * 5404319552844595 * 9007199254740993"
    by (intro round53_bounds) simp
  then have "10 * ?R * 9007199254740992 \<le> t * 54043195528445950 * 9007199254740993"
    by simp
  moreover from assms(3) have "3 * t + 1 \<le> 10 * s" by simp
  ultimately have "?R < s * 18014398509481984"
    using assms(1,2) by (simp add: algebra_simps)
  then show ?thesis
    using assms(1,2) by (simp add: three_tenths_def exceeds_iff)
qed

lemma three_tenths_below:
  assumes "0 \<le> t" and "t < 2 ^ 32" and "exceeds s t three_tenths"
  shows "3 * t \<le> 10 * s"
proof (rule ccontr)
  let ?R = "round53 (t * 5404319552844595)"
  assume "\<not> 3 * t \<le> 10 * s"
  then have less: "10 * s \<le> 3 * t - 1" by simp
  from assms have "?R < s * 18014398509481984"
    by (simp add: three_tenths_def exceeds_iff)
  moreover from assms(1) have "t * 5404319552844595 * 9007199254740991 \<le> ?R * 9007199254740992"
    by (intro round53_bounds) simp
  then have "t * 54043195528445950 * 9007199254740991 \<le> 10 * ?R * 9007199254740992"
    by simp
  ultimately show False
    using less assms(1,2) by (simp add: algebra_simps)
qed

lemma two_tenths_above:
  assumes "0 \<le> t" and "t < 2 ^ 32" and "t < 5 * s"
  shows "exceeds s t two_tenths"
proof -
  let ?R = "round53 (t * 7205759403792794)"
  from assms(1) have "?R * 9007199254740992 \<le> t * 7205759403792794 * 9007199254740993"
    by (intro round53_bounds) simp
  then have "5 * ?R * 9007199254740992 \<le> t * 36028797018963970 * 9007199254740993"
    by simp
  moreover from assms(3) have "t + 1 \<le> 5 * s" by simp
  ultimately have "?R < s * 36028797018963968"
    using assms(1,2) by (simp add: algebra_simps)
  then show ?thesis
    using assms(1,2) by (simp add: two_tenths_def exceeds_iff)
qed

lemma two_tenths_below:
  assumes "0 \<le> t" and "t < 2 ^ 32" and "exceeds s t two_tenths"
  shows "t \<le> 5 * s"
proof (rule ccontr)
  let ?R = "round53 (t * 7205759403792794)"
  assume "\<not> t \<le> 5 * s"
  then have less: "5 * s \<le> t - 1" by simp
  from assms have "?R < s * 36028797018963968"
    by (simp add: two_tenths_def exceeds_iff)
  moreover from assms(1) have "t * 7205759403792794 * 9007199254740991 \<le> ?R * 9007199254740992"
    by (intro round53_bounds) simp
  then have "t * 36028797018963970 * 9007199254740991 \<le> 5 * ?R * 9007199254740992"
    by simp
  ultimately show False
    using less assms(1,2) by (simp add: algebra_simps)
qed

lemma one_half_exact:
  assumes "0 \<le> t" and "t < 2 ^ 53"
  shows "exceeds s t one_half \<longleftrightarrow> t < 2 * s"
  using assms by (simp add: one_half_def exceeds_iff round53_small) presburger

text \<open>\<^verbatim>\<open>90 * 0.7\<close> is \<^verbatim>\<open>62.99999999999999\<close>, below 63.\<close>

lemma ninety_times_seven_tenths: "exceeds 63 90 seven_tenths"
proof -
  have "round53 (90 * 6305039478318694) = 567453553048682432" by code_simp
  then show ?thesis
    by (simp add: seven_tenths_def exceeds_iff)
qed

section \<open>Failure patterns of one column\<close>


text \<open>The labels of one column, the dict \<^verbatim>\<open>patterns\<close> of \<^verbatim>\<open>_analyze_column_failure_pattern\<close>.\<close>

record failure_pattern =
  randomness :: string
  systematic :: string
  degradation :: string
  maintenance_like :: string
  weather_correlated :: string



text \<open>
  Statistics without rounding, for the examples: the mean, the sample standard deviation
  (with \<open>n - 1\<close> in the denominator) and Pearson's correlation coefficient over the reals,
  which is undefined (\<open>None\<close>) when one of the two series is constant.
\<close>

definition mean :: "real list \<Rightarrow> real" where
  "mean xs = sum_list xs / real (length xs)"












section \<open>The method recommender\<close>

text \<open>
  The result of \<^verbatim>\<open>classify_failure_patterns\<close>, as far as the recommender reads it, and the
  part of the analysis the recommender reads: whether it carries an \<^verbatim>\<open>error\<close> key, the
  analysed columns, and the pooled gap-length distribution
  (\<^verbatim>\<open>overall_stats.gap_length_distribution\<close>, the empty dict when absent).
\<close>

record cross_equipment =
  simultaneous_failures :: string
  independent_failures :: string
  cascading_failures :: string

record clustering =
  clustered :: string
  distributed :: string
  seasonal :: string

record pattern_summary =
  primary_pattern :: string
  secondary_patterns :: "string list"
  interpolation_complexity :: string

record patterns =
  failure_types :: "(string \<times> failure_pattern) list"
  cross_equipment_correlation :: cross_equipment
  temporal_clustering :: clustering
  summary :: pattern_summary

record analysis =
  analysis_error :: "string option"
  analysis_columns :: "string list"
  gap_length_distribution :: "(string \<times> int) list"

text \<open>
  The dict \<^verbatim>\<open>recommendations\<close>. The keys \<^verbatim>\<open>gap_specific_recommendations\<close> and
  \<^verbatim>\<open>configuration\<close> are absent (\<open>None\<close>) from the result returned early when no gap is
  counted; \<^verbatim>\<open>pattern_based_recommendations\<close> is the empty dict (\<open>None\<close>) there.
\<close>

record recommendations =
  primary_method :: string
  method_parameters :: "(string \<times> bool) list"
  reasoning :: "string list"
  pattern_based_recommendations :: "patterns option"
  gap_specific_recommendations :: "(string \<times> string) list option"
  configuration :: "json option"

text \<open>\<^verbatim>\<open>d.get(key, 0)\<close> and \<^verbatim>\<open>d.get(key, True)\<close> on a dict.\<close>

definition get_count :: "(string \<times> int) list \<Rightarrow> string \<Rightarrow> int" where
  "get_count d k = (case map_of d k of Some v \<Rightarrow> v | None \<Rightarrow> 0)"

definition get_flag :: "(string \<times> bool) list \<Rightarrow> string \<Rightarrow> bool \<Rightarrow> bool" where
  "get_flag d k dflt = (case map_of d k of Some v \<Rightarrow> v | None \<Rightarrow> dflt)"

text \<open>The constant blocks of the configuration.\<close>

definition method_configuration :: "(string \<times> bool) list \<Rightarrow> nat \<Rightarrow> json" where
  "method_configuration params n_columns = JObj [
     (''multi_output_regression'', JObj [
        (''model_equipment_independently'',
           JBool (get_flag params ''model_equipment_independently'' True)),
        (''use_equipment_correlation'',
           JBool (get_flag params ''use_equipment_correlation'' True)),
        (''correlation_features'',
           (if n_columns \<ge> 3
            then JList [JStr ''inverter_1'', JStr ''inverter_2'', JStr ''inverter_3'']
            else JList [])),
        (''shared_features'', JList [JStr ''weather_data'', JStr ''time_features'']),
        (''apply_solar_constraints'', JBool True),
        (''solar_constraints'', JObj [
           (''nighttime_zero'', JBool True),
           (''max_power_limits'', JObj [(''inverter_1'', JNum 1500),
              (''inverter_2'', JNum 1500), (''inverter_3'', JNum 1500)]),
           (''negative_clipping'', JBool True),
           (''max_efficiency'', JNum 0.95)]),
        (''model_parameters'', JObj [
           (''n_estimators'', JNum 200),
           (''max_depth'', JNum 6),
           (''learning_rate'', JNum 0.1),
           (''feature_fraction'', JNum 0.9),
           (''random_state'', JNum 42)])]),
     (''spline_interpolation'', JObj [
        (''method'', JStr ''cubic''),
        (''fill_value'', JStr ''extrapolate''),
        (''apply_solar_constraints'', JBool True),
        (''solar_constraints'', JObj [
           (''nighttime_zero'', JBool True),
           (''negative_clipping'', JBool True)])]),
     (''gaussian_process'', JObj [
        (''kernel'', JStr ''rbf''),
        (''alpha'', JNum 0.000001),
        (''apply_solar_constraints'', JBool True),
        (''solar_constraints'', JObj [
           (''nighttime_zero'', JBool True),
           (''negative_clipping'', JBool True)])]),
     (''physics_based_model'', JObj [
        (''use_solar_position'', JBool True),
        (''use_weather_correlation'', JBool True),
        (''apply_solar_constraints'', JBool True),
        (''solar_constraints'', JObj [
           (''nighttime_zero'', JBool True),
           (''negative_clipping'', JBool True),
           (''max_efficiency'', JNum 0.95)])])]"

text \<open>
  The choice of the primary method, its parameters and its reason: the \<^verbatim>\<open>if\<close> chain on
  \<^verbatim>\<open>primary_pattern\<close>. The thresholds compare an integer count with the float product
  \<^verbatim>\<open>total_gaps * 0.7\<close> (or \<^verbatim>\<open>0.3\<close>, \<^verbatim>\<open>0.2\<close>).
\<close>

definition select_method ::
  "pattern_summary \<Rightarrow> int \<Rightarrow> int \<Rightarrow> int \<Rightarrow> int \<Rightarrow> recommendations \<Rightarrow> recommendations" where
  "select_method ps short_gaps medium_gaps long_gaps total_gaps r =
     (if primary_pattern ps = ''system_wide_failures'' then
        r \<lparr> primary_method := ''system_level_interpolation'',
            method_parameters := [(''use_system_correlation'', True),
              (''model_backup_power'', True), (''include_grid_status'', True)],
            reasoning := reasoning r @ [''System-wide failures detected - use system-level interpolation with backup power modeling''] \<rparr>
      else if primary_pattern ps = ''individual_equipment_failures'' then
        (if ''equipment_degradation'' \<in> set (secondary_patterns ps) then
           r \<lparr> primary_method := ''degradation_aware_interpolation'',
               method_parameters := [(''use_degradation_curves'', True),
                 (''model_equipment_age'', True), (''include_performance_trends'', True)],
               reasoning := reasoning r @ [''Equipment degradation detected - use degradation-aware interpolation with performance trends''] \<rparr>
         else if ''maintenance_patterns'' \<in> set (secondary_patterns ps) then
           r \<lparr> primary_method := ''maintenance_aware_interpolation'',
               method_parameters := [(''use_maintenance_schedules'', True),
                 (''model_planned_outages'', True), (''include_preventive_maintenance'', True)],
               reasoning := reasoning r @ [''Maintenance patterns detected - use maintenance-aware interpolation with scheduled outages''] \<rparr>
         else if ''random_failures'' \<in> set (secondary_patterns ps) then
           r \<lparr> primary_method := ''equipment_specific_interpolation'',
               method_parameters := [(''model_individual_equipment'', True),
                 (''use_equipment_correlation'', False), (''include_equipment_specs'', True)],
               reasoning := reasoning r @ [''Random individual failures detected - use equipment-specific interpolation''] \<rparr>
         else
           r \<lparr> primary_method := ''multi_output_regression'',
               method_parameters := [(''model_equipment_independently'', True),
                 (''use_equipment_correlation'', True)],
               reasoning := reasoning r @ [''Individual equipment failures detected - use multi-output regression''] \<rparr>)
      else
        (if exceeds short_gaps total_gaps seven_tenths then
           r \<lparr> primary_method := ''spline_interpolation'',
               reasoning := reasoning r @ [''Mostly short gaps (1-3 hours) - spline interpolation recommended''] \<rparr>
         else if exceeds medium_gaps total_gaps three_tenths then
           r \<lparr> primary_method := ''gaussian_process'',
               reasoning := reasoning r @ [''Significant medium gaps (6-24 hours) - Gaussian Process recommended''] \<rparr>
         else if exceeds long_gaps total_gaps two_tenths then
           r \<lparr> primary_method := ''physics_based_model'',
               reasoning := reasoning r @ [''Many long gaps (>24 hours) - physics-based models recommended''] \<rparr>
         else r))"

text \<open>
  \<^verbatim>\<open>recommend_methods_generic\<close>. Its second argument is the value that
  \<^verbatim>\<open>self.classify_failure_patterns(analysis)\<close> returns: the patterns, or an error message.
  A result \<open>Inl msg\<close> is the returned dict \<^verbatim>\<open>{'error': msg}\<close>, not an exception.
\<close>

definition recommend_methods_generic ::
  "analysis \<Rightarrow> string + patterns \<Rightarrow> string + recommendations" where
  "recommend_methods_generic a classified =
     (case analysis_error a of
        Some msg \<Rightarrow> Inl msg
      | None \<Rightarrow>
     (case classified of
        Inl msg \<Rightarrow> Inl msg
      | Inr pats \<Rightarrow>
          let gap_dist = gap_length_distribution a;
              ps = summary pats;
              r0 = \<lparr> primary_method = ''unknown'', method_parameters = [], reasoning = [],
                     pattern_based_recommendations = None,
                     gap_specific_recommendations = None, configuration = None \<rparr>;
              short_gaps = get_count gap_dist ''1h'' + get_count gap_dist ''2h''
                             + get_count gap_dist ''3h'';
              medium_gaps = get_count gap_dist ''6h'' + get_count gap_dist ''12h''
                             + get_count gap_dist ''1d'';
              long_gaps = get_count gap_dist ''2d'' + get_count gap_dist ''1w''
                             + get_count gap_dist ''>1w'';
              total_gaps = sum_list (map snd gap_dist)
          in if total_gaps = 0 then
               Inr (r0 \<lparr> reasoning := [''No gaps found - no interpolation needed''] \<rparr>)
             else
               let r1 = select_method ps short_gaps medium_gaps long_gaps total_gaps r0;
                   r2 = r1 \<lparr> method_parameters :=
                               AList.update ''apply_solar_constraints'' True (method_parameters r1),
                             reasoning := reasoning r1 @
                               [''Apply solar physics constraints (nighttime = 0, etc.)''] \<rparr>;
                   r3 = r2 \<lparr> gap_specific_recommendations := Some [
                          (''short_gaps'',
                             if exceeds short_gaps total_gaps one_half
                             then ''spline_interpolation'' else ''multi_output_regression''),
                          (''medium_gaps'',
                             if exceeds medium_gaps total_gaps three_tenths
                             then ''multi_output_regression'' else ''gaussian_process''),
                          (''long_gaps'',
                             if exceeds long_gaps total_gaps two_tenths
                             then ''physics_based_model'' else ''multi_output_regression'')] \<rparr>;
                   r4 = r3 \<lparr> configuration := Some (method_configuration (method_parameters r3)
                                  (length (analysis_columns a))) \<rparr>
               in Inr (r4 \<lparr> pattern_based_recommendations := Some pats \<rparr>)))"

lemma select_method_fallback:
  "primary_pattern ps = ''unknown'' \<Longrightarrow>
   primary_method (select_method ps s m l t r) =
     (if exceeds s t seven_tenths then ''spline_interpolation''
      else if exceeds m t three_tenths then ''gaussian_process''
      else if exceeds l t two_tenths then ''physics_based_model''
      else primary_method r)"
  by (simp add: select_method_def)

text \<open>
  The classification of an analysis of one column: with fewer than two columns no
  cross-equipment pattern is found and the primary pattern stays \<^verbatim>\<open>unknown\<close>.
\<close>

definition no_pattern :: patterns where
  "no_pattern = \<lparr> failure_types = [],
     cross_equipment_correlation = \<lparr> simultaneous_failures = ''unknown'',
       independent_failures = ''unknown'', cascading_failures = ''unknown'' \<rparr>,
     temporal_clustering = \<lparr> clustered = ''unknown'', distributed = ''unknown'',
       seasonal = ''unknown'' \<rparr>,
     summary = \<lparr> primary_pattern = ''unknown'', secondary_patterns = [],
       interpolation_complexity = ''unknown'' \<rparr> \<rparr>"

text \<open>
  An analysis of one column with 90 gaps: 63 short ones (exactly 70%), 7 medium ones and
  20 long ones.
\<close>

definition seventy_percent_short :: analysis where
  "seventy_percent_short = \<lparr> analysis_error = None, analysis_columns = [''p''],
     gap_length_distribution = [(''1h'', 40), (''2h'', 15), (''3h'', 8), (''6h'', 5),
       (''12h'', 2), (''1d'', 0), (''2d'', 15), (''1w'', 5)] \<rparr>"

text \<open>
  With the primary pattern \<^verbatim>\<open>unknown\<close> and at least one gap counted, the primary method is
  chosen by the three tests on the binary64 products, the first that succeeds winning, and
  stays \<^verbatim>\<open>unknown\<close> when none does.
\<close>

lemma recommender_fallback_products:
  assumes "analysis_error a = None"
    and "primary_pattern (summary pats) = ''unknown''"
    and "sum_list (map snd (gap_length_distribution a)) \<noteq> 0"
  shows "\<exists>r. recommend_methods_generic a (Inr pats) = Inr r \<and>
     primary_method r =
       (let d = gap_length_distribution a;
            short_gaps = get_count d ''1h'' + get_count d ''2h'' + get_count d ''3h'';
            medium_gaps = get_count d ''6h'' + get_count d ''12h'' + get_count d ''1d'';
            long_gaps = get_count d ''2d'' + get_count d ''1w'' + get_count d ''>1w'';
            total_gaps = sum_list (map snd d)
        in if exceeds short_gaps total_gaps seven_tenths then ''spline_interpolation''
           else if exceeds medium_gaps total_gaps three_tenths then ''gaussian_process''
           else if exceeds long_gaps total_gaps two_tenths then ''physics_based_model''
           else ''unknown'')"
  using assms by (simp add: recommend_methods_generic_def Let_def select_method_fallback)

text \<open>
  Away from the exact percentages the choice is the one of the thresholds 70%, 30% and 20%
  (on fewer than \<open>2\<^sup>3\<^sup>2\<close> gaps).
\<close>

lemma recommender_fallback_strict:
  fixes a :: analysis
  defines "d \<equiv> gap_length_distribution a"
  defines "short_gaps \<equiv> get_count d ''1h'' + get_count d ''2h'' + get_count d ''3h''"
  defines "medium_gaps \<equiv> get_count d ''6h'' + get_count d ''12h'' + get_count d ''1d''"
  defines "long_gaps \<equiv> get_count d ''2d'' + get_count d ''1w'' + get_count d ''>1w''"
  defines "total_gaps \<equiv> sum_list (map snd d)"
  assumes "analysis_error a = None"
    and "primary_pattern (summary pats) = ''unknown''"
    and "0 < total_gaps" and "total_gaps < 2 ^ 32"
  shows "\<exists>r. recommend_methods_generic a (Inr pats) = Inr r \<and>
     (7 * total_gaps < 10 * short_gaps \<longrightarrow> primary_method r = ''spline_interpolation'') \<and>
     (10 * short_gaps < 7 * total_gaps \<and> 3 * total_gaps < 10 * medium_gaps
        \<longrightarrow> primary_method r = ''gaussian_process'') \<and>
     (10 * short_gaps < 7 * total_gaps \<and> 10 * medium_gaps < 3 * total_gaps
        \<and> total_gaps < 5 * long_gaps \<longrightarrow> primary_method r = ''physics_based_model'') \<and>
     (10 * short_gaps < 7 * total_gaps \<and> 10 * medium_gaps < 3 * total_gaps
        \<and> 5 * long_gaps < total_gaps \<longrightarrow> primary_method r = ''unknown'')"
proof -
  from assms(8,9) have t: "0 \<le> total_gaps" "total_gaps < 2 ^ 32" by simp_all
  from assms(8) have "sum_list (map snd (gap_length_distribution a)) \<noteq> 0"
    by (simp add: total_gaps_def d_def)
  from recommender_fallback_products [OF assms(6,7) this]
  obtain r where r: "recommend_methods_generic a (Inr pats) = Inr r"
    and chosen: "primary_method r =
        (if exceeds short_gaps total_gaps seven_tenths then ''spline_interpolation''
         else if exceeds medium_gaps total_gaps three_tenths then ''gaussian_process''
         else if exceeds long_gaps total_gaps two_tenths then ''physics_based_model''
         else ''unknown'')"
    by (auto simp: Let_def d_def short_gaps_def medium_gaps_def long_gaps_def total_gaps_def)
  have short_above: "exceeds short_gaps total_gaps seven_tenths"
    if "7 * total_gaps < 10 * short_gaps"
    using t that by (rule seven_tenths_above)
  have short_below: "\<not> exceeds short_gaps total_gaps seven_tenths"
    if "10 * short_gaps < 7 * total_gaps"
    using seven_tenths_below [OF t, of short_gaps] that by auto
  have medium_above: "exceeds medium_gaps total_gaps three_tenths"
    if "3 * total_gaps < 10 * medium_gaps"
    using t that by (rule three_tenths_above)
  have medium_below: "\<not> exceeds medium_gaps total_gaps three_tenths"
    if "10 * medium_gaps < 3 * total_gaps"
    using three_tenths_below [OF t, of medium_gaps] that by auto
  have long_above: "exceeds long_gaps total_gaps two_tenths"
    if "total_gaps < 5 * long_gaps"
    using t that by (rule two_tenths_above)
  have long_below: "\<not> exceeds long_gaps total_gaps two_tenths"
    if "5 * long_gaps < total_gaps"
    using two_tenths_below [OF t, of long_gaps] that by auto
  from chosen short_above short_below medium_above medium_below long_above long_below
  have "(7 * total_gaps < 10 * short_gaps \<longrightarrow> primary_method r = ''spline_interpolation'') \<and>
     (10 * short_gaps < 7 * total_gaps \<and> 3 * total_gaps < 10 * medium_gaps
        \<longrightarrow> primary_method r = ''gaussian_process'') \<and>
     (10 * short_gaps < 7 * total_gaps \<and> 10 * medium_gaps < 3 * total_gaps
        \<and> total_gaps < 5 * long_gaps \<longrightarrow> primary_method r = ''physics_based_model'') \<and>
     (10 * short_gaps < 7 * total_gaps \<and> 10 * medium_gaps < 3 * total_gaps
        \<and> 5 * long_gaps < total_gaps \<longrightarrow> primary_method r = ''unknown'')"
    by simp
  with r show ?thesis by blast
qed

text \<open>
  Claim C7 (recommender fallback), at an analysis the claim and the code decide
  differently. \<open>seventy_percent_short\<close> has one column, so its primary pattern is \<^verbatim>\<open>unknown\<close>,
  and 90 gaps. Its 63 short gaps are 70% of the total and do not exceed 70%, its 7 medium
  gaps do not exceed 30%, and its 20 long gaps exceed 20%: by the thresholds of the claim,
  first match winning, the primary method is \<^verbatim>\<open>physics_based_model\<close>. The recommender
  returns \<^verbatim>\<open>spline_interpolation\<close>: the product \<^verbatim>\<open>90 * 0.7\<close> is rounded below 63, so the
  test \<^verbatim>\<open>short_gaps > total_gaps * 0.7\<close> succeeds.
\<close>

theorem recommender_fallback_boundary:
  "map_sum id primary_method (recommend_methods_generic seventy_percent_short (Inr no_pattern))
     = Inr ''spline_interpolation''
   \<and> primary_pattern (summary no_pattern) = ''unknown''
   \<and> (let d = gap_length_distribution seventy_percent_short;
           short_gaps = get_count d ''1h'' + get_count d ''2h'' + get_count d ''3h'';
           medium_gaps = get_count d ''6h'' + get_count d ''12h'' + get_count d ''1d'';
           long_gaps = get_count d ''2d'' + get_count d ''1w'' + get_count d ''>1w'';
           total_gaps = sum_list (map snd d)
       in total_gaps = 90
          \<and> \<not> real_of_int short_gaps > 0.7 * real_of_int total_gaps
          \<and> \<not> real_of_int medium_gaps > 0.3 * real_of_int total_gaps
          \<and> real_of_int long_gaps > 0.2 * real_of_int total_gaps)"
proof -
  have "analysis_error seventy_percent_short = None"
    and "primary_pattern (summary no_pattern) = ''unknown''"
    and "sum_list (map snd (gap_length_distribution seventy_percent_short)) \<noteq> 0"
    by (simp_all add: seventy_percent_short_def no_pattern_def)
  from recommender_fallback_products [OF this] ninety_times_seven_tenths
  have "map_sum id primary_method
      (recommend_methods_generic seventy_percent_short (Inr no_pattern))
     = Inr ''spline_interpolation''"
    by (auto simp: seventy_percent_short_def get_count_def)
  then show ?thesis
    by (simp add: seventy_percent_short_def no_pattern_def get_count_def)
qed

section \<open>The solar constraint post-processor\<close>

text \<open>
  \<^verbatim>\<open>BaseInterpolator.apply_solar_constraints\<close>. The helper column \<^verbatim>\<open>hour\<close> is written among
  the numeric columns and dropped at the end. \<^verbatim>\<open>df.loc[night_mask, col] = 0\<close> on a column
  the frame does not have adds the column, missing everywhere but in the night rows; on a
  frame without rows pandas refuses it. A time column that the frame does not have is a
  \<^verbatim>\<open>KeyError\<close>.

  When the time column itself is named \<^verbatim>\<open>hour\<close>, the assignment
  \<^verbatim>\<open>df_result['hour'] = df_result[time_column].dt.hour\<close> overwrites it with the hours, and
  \<^verbatim>\<open>drop('hour', axis=1)\<close> then removes it: the frame returned has no timestamp column.
\<close>

type_synonym columns = "(string \<times> cell list) list"

definition night_zero :: "bool list \<Rightarrow> cell list \<Rightarrow> cell list" where
  "night_zero night_mask vs = map2 (\<lambda>night v. if night then Some 0 else v) night_mask vs"

definition clip_lower :: "cell list \<Rightarrow> cell list" where
  "clip_lower vs = map (map_option (max 0)) vs"

definition set_night :: "bool list \<Rightarrow> string \<Rightarrow> columns \<Rightarrow> py_error + columns" where
  "set_night night_mask col cs =
     (case map_of cs col of
        Some vs \<Rightarrow> Inr (AList.update col (night_zero night_mask vs) cs)
      | None \<Rightarrow>
          if night_mask = []
          then Inl (ValueError ''cannot set a frame with no defined index and a scalar'')
          else Inr (AList.update col
                 (night_zero night_mask (replicate (length night_mask) None)) cs))"

definition clip_column :: "string \<Rightarrow> columns \<Rightarrow> py_error + columns" where
  "clip_column col cs =
     (case map_of cs col of
        Some vs \<Rightarrow> Inr (AList.update col (clip_lower vs) cs)
      | None \<Rightarrow> Inl (KeyError col))"

fun constrain_columns :: "bool list \<Rightarrow> string list \<Rightarrow> columns \<Rightarrow> py_error + columns" where
  "constrain_columns night_mask [] cs = Inr cs"
| "constrain_columns night_mask (col # rest) cs =
     bind_err (set_night night_mask col cs) (\<lambda>cs1.
     bind_err (clip_column col cs1) (\<lambda>cs2.
       constrain_columns night_mask rest cs2))"

text \<open>\<^verbatim>\<open>df.drop('hour', axis=1)\<close>: the column of that name goes, be it the helper column
  among the numeric columns or the timestamp column.\<close>

definition drop_hour :: "frame \<Rightarrow> frame" where
  "drop_hour df =
     (if time_name df = Some ''hour''
      then df \<lparr> time_name := None, stamps := map (\<lambda>t. 0) (stamps df),
                cols := AList.delete ''hour'' (cols df) \<rparr>
      else df \<lparr> cols := AList.delete ''hour'' (cols df) \<rparr>)"

definition apply_solar_constraints :: "frame \<Rightarrow> string list \<Rightarrow> string \<Rightarrow> py_error + frame" where
  "apply_solar_constraints df power_columns time_column =
     (if time_name df \<noteq> Some time_column then Inl (KeyError time_column)
      else
        let hours = map hour_of (stamps df);
            with_hour = AList.update ''hour'' (map (\<lambda>h. Some (real_of_int h)) hours) (cols df);
            night_mask = map (\<lambda>h. h \<le> 5 \<or> h \<ge> 19) hours
        in bind_err (constrain_columns night_mask power_columns with_hour) (\<lambda>cs.
             Inr (drop_hour (df \<lparr> cols := cs \<rparr>))))"

text \<open>What the loop body does to the cells of one column, and the columns it leaves
  unchanged.\<close>

definition settle :: "bool list \<Rightarrow> cell list \<Rightarrow> cell list" where
  "settle night_mask vs = clip_lower (night_zero night_mask vs)"

lemma settle_idem: "settle m (settle m vs) = settle m vs"
proof (induction m arbitrary: vs)
  case Nil
  then show ?case by (simp add: settle_def night_zero_def clip_lower_def)
next
  case (Cons b m)
  show ?case
  proof (cases vs)
    case Nil
    then show ?thesis by (simp add: settle_def night_zero_def clip_lower_def)
  next
    case (Cons v vs')
    from Cons.IH [of vs'] show ?thesis
      by (cases v) (simp_all add: Cons settle_def night_zero_def clip_lower_def)
  qed
qed

definition settled :: "bool list \<Rightarrow> columns \<Rightarrow> string \<Rightarrow> bool" where
  "settled m cs col = (case map_of cs col of Some vs \<Rightarrow> settle m vs = vs | None \<Rightarrow> False)"

lemma constrain_step:
  "bind_err (set_night m col cs) (\<lambda>cs1. bind_err (clip_column col cs1) k) =
     (case map_of cs col of
        Some vs \<Rightarrow> k (AList.update col (settle m vs) cs)
      | None \<Rightarrow>
          if m = [] then Inl (ValueError ''cannot set a frame with no defined index and a scalar'')
          else k (AList.update col (settle m (replicate (length m) None)) cs))"
  by (simp add: set_night_def clip_column_def settle_def update_conv' update_last
      split: option.splits)

lemma settled_update_same: "settled m (AList.update col (settle m vs) cs) col"
  by (simp add: settled_def update_conv' settle_idem)

lemma settled_update_other:
  "c \<noteq> col \<Longrightarrow> settled m (AList.update col vs cs) c = settled m cs c"
  by (simp add: settled_def update_conv')

lemma settled_update_keep:
  "settled m cs c \<Longrightarrow> settled m (AList.update col (settle m vs) cs) c"
  by (cases "c = col") (simp_all add: settled_update_same settled_update_other)

lemma constrain_columns_settles:
  "constrain_columns m pcs cs = Inr cs' \<Longrightarrow>
     (\<forall>c \<in> set pcs. settled m cs' c) \<and> (\<forall>c. settled m cs c \<longrightarrow> settled m cs' c)"
proof (induction pcs arbitrary: cs)
  case Nil
  then show ?case by simp
next
  case (Cons col rest)
  from Cons.prems obtain vs where
    next_run: "constrain_columns m rest (AList.update col (settle m vs) cs) = Inr cs'"
    by (auto simp: constrain_step split: option.splits if_splits)
  from Cons.IH [OF next_run]
  have rest: "\<forall>c \<in> set rest. settled m cs' c"
    and keep: "\<forall>c. settled m (AList.update col (settle m vs) cs) c \<longrightarrow> settled m cs' c"
    by simp_all
  from keep have "settled m cs' col"
    by (simp add: settled_update_same)
  moreover from keep have "\<forall>c. settled m cs c \<longrightarrow> settled m cs' c"
    by (blast intro: settled_update_keep)
  ultimately show ?case using rest by simp
qed

lemma constrain_columns_again:
  "\<forall>c \<in> set pcs. c \<noteq> ''hour'' \<longrightarrow> settled m cs c \<Longrightarrow> ''hour'' \<in> fst ` set cs \<Longrightarrow>
   \<exists>cs'. constrain_columns m pcs cs = Inr cs' \<and> AList.delete ''hour'' cs' = AList.delete ''hour'' cs"
proof (induction pcs arbitrary: cs)
  case Nil
  then show ?case by simp
next
  case (Cons col rest)
  show ?case
  proof (cases "col = ''hour''")
    case True
    from Cons.prems(2) obtain vs where vs: "map_of cs ''hour'' = Some vs"
      by (metis domD dom_map_of_conv_image_fst)
    let ?cs = "AList.update ''hour'' (settle m vs) cs"
    have "\<forall>c \<in> set rest. c \<noteq> ''hour'' \<longrightarrow> settled m ?cs c"
      using Cons.prems(1) by (simp add: settled_update_other)
    moreover have "''hour'' \<in> fst ` set ?cs"
      by (simp add: dom_update)
    ultimately obtain cs' where "constrain_columns m rest ?cs = Inr cs'"
      and "AList.delete ''hour'' cs' = AList.delete ''hour'' ?cs"
      using Cons.IH by blast
    then show ?thesis
      using True vs by (simp add: constrain_step delete_update_same)
  next
    case False
    with Cons.prems(1) obtain vs where vs: "map_of cs col = Some vs" "settle m vs = vs"
      by (auto simp: settled_def split: option.splits)
    then have same: "AList.update col (settle m vs) cs = cs"
      by (simp add: update_triv)
    from Cons.prems have "\<exists>cs'. constrain_columns m rest cs = Inr cs'
        \<and> AList.delete ''hour'' cs' = AList.delete ''hour'' cs"
      by (intro Cons.IH) simp_all
    then show ?thesis
      using vs same by (simp add: constrain_step)
  qed
qed

text \<open>
  On a frame whose time column is not named \<^verbatim>\<open>hour\<close>, a second application of the
  post-processor succeeds whenever the first does and returns the same frame.
\<close>

lemma apply_solar_constraints_again:
  assumes "apply_solar_constraints df power_columns time_column = Inr df'"
    and "time_column \<noteq> ''hour''"
  shows "apply_solar_constraints df' power_columns time_column = Inr df'"
proof -
  let ?m = "map (\<lambda>h. h \<le> 5 \<or> h \<ge> 19) (map hour_of (stamps df))"
  let ?hc = "map (\<lambda>h. Some (real_of_int h)) (map hour_of (stamps df))"
  from assms(1) have tc: "time_name df = Some time_column"
    by (auto simp: apply_solar_constraints_def split: if_splits)
  with assms(2) have keep: "time_name df \<noteq> Some ''hour''" by simp
  from assms(1) obtain cs where
    first: "constrain_columns ?m power_columns (AList.update ''hour'' ?hc (cols df)) = Inr cs"
    and df': "df' = df \<lparr> cols := AList.delete ''hour'' cs \<rparr>"
    by (cases "constrain_columns ?m power_columns (AList.update ''hour'' ?hc (cols df))")
       (auto simp: apply_solar_constraints_def Let_def tc drop_hour_def assms(2))
  let ?again = "AList.update ''hour'' ?hc (AList.delete ''hour'' cs)"
  from constrain_columns_settles [OF first]
  have "\<forall>c \<in> set power_columns. settled ?m cs c" by simp
  then have "\<forall>c \<in> set power_columns. c \<noteq> ''hour'' \<longrightarrow> settled ?m ?again c"
    by (simp add: settled_def update_conv' delete_conv')
  moreover have "''hour'' \<in> fst ` set ?again"
    by (simp add: dom_update)
  ultimately obtain cs' where
    second: "constrain_columns ?m power_columns ?again = Inr cs'"
    and "AList.delete ''hour'' cs' = AList.delete ''hour'' ?again"
    using constrain_columns_again by blast
  then have "AList.delete ''hour'' cs' = AList.delete ''hour'' cs"
    by (simp add: delete_update_same delete_idem)
  with second show ?thesis
    by (simp add: apply_solar_constraints_def Let_def tc df' drop_hour_def assms(2))
qed

text \<open>A frame with rows at the hours 0, 12, 13 and 14, a negative reading and a missing one,
  and the frame that the post-processor makes of it.\<close>

definition noon_frame :: frame where
  "noon_frame = \<lparr> time_name = Some ''t'', stamps = [0, 43200, 46800, 50400],
     cols = [(''p'', [Some 5, Some 7, Some (- 2), None])] \<rparr>"

definition noon_constrained :: frame where
  "noon_constrained = \<lparr> time_name = Some ''t'', stamps = [0, 43200, 46800, 50400],
     cols = [(''p'', [Some 0, Some 7, Some 0, None])] \<rparr>"

lemma noon_frame_constrained:
  "apply_solar_constraints noon_frame [''p''] ''t'' = Inr noon_constrained
   \<and> apply_solar_constraints noon_constrained [''p''] ''t'' = Inr noon_constrained"
proof -
  have once: "apply_solar_constraints noon_frame [''p''] ''t'' = Inr noon_constrained"
    by (simp add: apply_solar_constraints_def noon_frame_def noon_constrained_def Let_def
        hour_of_def set_night_def clip_column_def night_zero_def clip_lower_def drop_hour_def)
  from apply_solar_constraints_again [OF once] once show ?thesis by simp
qed

text \<open>The same readings in a frame whose time column is named \<^verbatim>\<open>hour\<close>, and what the
  post-processor returns for it: the constrained readings without a timestamp column.\<close>

definition hour_frame :: frame where
  "hour_frame = \<lparr> time_name = Some ''hour'', stamps = [0, 43200, 46800, 50400],
     cols = [(''p'', [Some 5, Some 7, Some (- 2), None])] \<rparr>"

definition hour_dropped :: frame where
  "hour_dropped = \<lparr> time_name = None, stamps = [0, 0, 0, 0],
     cols = [(''p'', [Some 0, Some 7, Some 0, None])] \<rparr>"

text \<open>
  Claim C9 (solar-constraint idempotence) says that for every frame, applying the
  post-processor twice yields the same frame as applying it once. On \<open>hour_frame\<close>, whose
  time column bears the name of the helper column, the first application returns a frame:
  the readings are constrained, and the time column, overwritten with the hours, is removed
  with the helper column. The second application then finds no column \<^verbatim>\<open>hour\<close> to read the
  time from and raises \<^verbatim>\<open>KeyError\<close>, where the claim has it return the frame of the first.
\<close>

theorem apply_solar_constraints_drops_time_column:
  "apply_solar_constraints hour_frame [''p''] ''hour'' = Inr hour_dropped
   \<and> apply_solar_constraints hour_dropped [''p''] ''hour'' = Inl (KeyError ''hour'')"
  by (simp add: apply_solar_constraints_def hour_frame_def hour_dropped_def Let_def
      hour_of_def set_night_def clip_column_def night_zero_def clip_lower_def drop_hour_def)

section \<open>The validation split\<close>

text \<open>
  \<^verbatim>\<open>create_validation_split\<close>. The rows are indexed by their position. \<^verbatim>\<open>df[power_columns]\<close>
  raises \<^verbatim>\<open>KeyError\<close> when a power column is not in the frame. The sampler
  \<^verbatim>\<open>np.random.choice(complete_indices, size = n, replace = False)\<close>, called right after
  \<^verbatim>\<open>np.random.seed(42)\<close>, is an argument of the model: a function of the population and
  the sample size, since the generator is seeded anew at every call.
\<close>

record validation_info =
  validation_indices :: "nat list"
  validation_data :: "(string \<times> cell list) list"
  n_validation_points :: nat

definition missing_columns :: "frame \<Rightarrow> string list \<Rightarrow> string list" where
  "missing_columns df power_columns = filter (\<lambda>c. map_of (cols df) c = None) power_columns"

definition row_complete :: "frame \<Rightarrow> string list \<Rightarrow> nat \<Rightarrow> bool" where
  "row_complete df power_columns i =
     list_all (\<lambda>c. case map_of (cols df) c of
                      Some vs \<Rightarrow> i < length vs \<and> vs ! i \<noteq> None
                    | None \<Rightarrow> False) power_columns"

definition complete_indices :: "frame \<Rightarrow> string list \<Rightarrow> nat list" where
  "complete_indices df power_columns = filter (row_complete df power_columns) [0 ..< nrows df]"

definition n_validation_of :: "nat \<Rightarrow> double \<Rightarrow> nat" where
  "n_validation_of n_complete validation_ratio =
     nat (max 10 \<lfloor>int_times_double (int n_complete) validation_ratio\<rfloor>)"

definition take_rows :: "nat list \<Rightarrow> cell list \<Rightarrow> cell list" where
  "take_rows indices vs = map (\<lambda>i. if i < length vs then vs ! i else None) indices"

definition blank_rows :: "nat list \<Rightarrow> cell list \<Rightarrow> cell list" where
  "blank_rows indices vs =
     map (\<lambda>(i, v). if i \<in> set indices then None else v) (zip [0 ..< length vs] vs)"

definition create_validation_split ::
  "(nat list \<Rightarrow> nat \<Rightarrow> nat list) \<Rightarrow> frame \<Rightarrow> string list \<Rightarrow> double
     \<Rightarrow> py_error + frame \<times> (string + validation_info)" where
  "create_validation_split choice df power_columns validation_ratio =
     (case missing_columns df power_columns of
        c # _ \<Rightarrow> Inl (KeyError c)
      | [] \<Rightarrow>
          let complete = complete_indices df power_columns in
          if length complete < 20
          then Inr (df, Inl ''Insufficient complete data for validation'')
          else
            let n_validation = n_validation_of (length complete) validation_ratio;
                chosen = choice complete n_validation;
                data = map (\<lambda>c. (c, case map_of (cols df) c of
                                         Some vs \<Rightarrow> take_rows chosen vs
                                       | None \<Rightarrow> [])) power_columns;
                df_validation = df \<lparr> cols :=
                  map (\<lambda>(c, vs). if c \<in> set power_columns then (c, blank_rows chosen vs)
                                   else (c, vs)) (cols df) \<rparr>
            in Inr (df_validation,
                    Inr \<lparr> validation_indices = chosen,
                          validation_data = data,
                          n_validation_points = length chosen \<rparr>))"

text \<open>The default of the parameter \<^verbatim>\<open>validation_ratio\<close>, with which the engine calls.
  \<^verbatim>\<open>int(n * 0.15)\<close> truncates the binary64 product, which on fewer than \<open>2\<^sup>3\<^sup>2\<close> rows is
  \<open>3n div 20\<close>, the truncation of the exact 15%.\<close>

definition default_ratio :: double where
  "default_ratio = fifteen_hundredths"

lemma fifteen_percent_floor: "\<lfloor>real n * 0.15\<rfloor> = int ((3 * n) div 20)"
proof -
  have "real n * 0.15 = real (3 * n) / real 20" by simp
  then show ?thesis
    by (simp only: floor_divide_of_nat_eq)
qed

lemma n_validation_default:
  "n < 2 ^ 32 \<Longrightarrow> n_validation_of n default_ratio = max 10 ((3 * n) div 20)"
  by (simp add: n_validation_of_def default_ratio_def fifteen_percent_exact)

lemma n_validation_floor:
  "n < 2 ^ 32 \<Longrightarrow> n_validation_of n default_ratio = nat (max 10 \<lfloor>real n * 0.15\<rfloor>)"
  by (simp only: n_validation_default fifteen_percent_floor)

lemma n_validation_bounded: "20 \<le> n \<Longrightarrow> max 10 ((3 * n) div 20) \<le> (n :: nat)"
  by simp

text \<open>A sampler that meets the contract of numpy's, for the examples: the first \<open>n\<close> of the
  population.\<close>

definition first_n :: "nat list \<Rightarrow> nat \<Rightarrow> nat list" where
  "first_n xs n = take n xs"

lemma complete_indices_full:
  "complete_indices (series_frame (replicate n (Some x))) [''p''] = [0 ..< n]"
  by (simp add: complete_indices_def series_frame_def nrows_def row_complete_def
      cong: filter_cong)

lemma missing_columns_series: "missing_columns (series_frame s) [''p''] = []"
  by (simp add: missing_columns_def series_frame_def)

lemma create_validation_split_few:
  assumes "missing_columns df power_columns = []"
    and "length (complete_indices df power_columns) < 20"
  shows "create_validation_split choice df power_columns default_ratio =
     Inr (df, Inl ''Insufficient complete data for validation'')"
  using assms by (simp add: create_validation_split_def Let_def)

lemma create_validation_split_enough:
  assumes "missing_columns df power_columns = []"
    and "20 \<le> length (complete_indices df power_columns)"
    and "length (complete_indices df power_columns) < 2 ^ 32"
  shows "\<exists>dfv info. create_validation_split choice df power_columns default_ratio
       = Inr (dfv, Inr info)
     \<and> validation_indices info = choice (complete_indices df power_columns)
            (max 10 ((3 * length (complete_indices df power_columns)) div 20))
     \<and> n_validation_points info = length (validation_indices info)"
  using assms
  by (simp add: create_validation_split_def Let_def n_validation_default)

text \<open>
  Claim C6 (validation split), as amended. Let the frame have all the power columns and
  fewer than \<open>2\<^sup>3\<^sup>2\<close> complete rows, and let the seeded sampler return, as numpy's does,
  \<open>n\<close> distinct members of a population of at least \<open>n\<close>. With at least 20 rows complete
  across all power columns,
  \<^verbatim>\<open>create_validation_split\<close> chooses \<open>max 10 \<lfloor>15%\<rfloor>\<close> of those complete rows (the
  product is truncated by \<^verbatim>\<open>int\<close>, not rounded up), the indices being a function of the
  frame and the power columns alone (the sampler is seeded anew at every call), distinct,
  and each a row in which all power columns are present. With fewer than 20 complete rows
  it returns the frame unchanged with a diagnostic marker, and raises no error.
\<close>

theorem create_validation_split_floor:
  assumes "missing_columns df power_columns = []"
    and "\<And>xs n. n \<le> length xs \<Longrightarrow> distinct xs \<Longrightarrow>
           length (choice xs n) = n \<and> distinct (choice xs n) \<and> set (choice xs n) \<subseteq> set xs"
    and "length (complete_indices df power_columns) < 2 ^ 32"
  shows "(length (complete_indices df power_columns) < 20 \<longrightarrow>
            create_validation_split choice df power_columns default_ratio =
              Inr (df, Inl ''Insufficient complete data for validation''))
       \<and> (20 \<le> length (complete_indices df power_columns) \<longrightarrow>
            (\<exists>dfv info. create_validation_split choice df power_columns default_ratio
                 = Inr (dfv, Inr info)
               \<and> validation_indices info = choice (complete_indices df power_columns)
                    (nat (max 10 \<lfloor>real (length (complete_indices df power_columns)) * 0.15\<rfloor>))
               \<and> length (validation_indices info)
                    = nat (max 10 \<lfloor>real (length (complete_indices df power_columns)) * 0.15\<rfloor>)
               \<and> n_validation_points info = length (validation_indices info)
               \<and> distinct (validation_indices info)
               \<and> list_all (row_complete df power_columns) (validation_indices info)))"
proof (intro conjI impI)
  assume "length (complete_indices df power_columns) < 20"
  with assms(1) show "create_validation_split choice df power_columns default_ratio =
      Inr (df, Inl ''Insufficient complete data for validation'')"
    by (rule create_validation_split_few)
next
  let ?ci = "complete_indices df power_columns"
  let ?n = "max 10 ((3 * length ?ci) div 20)"
  note sampler = assms(2)
  assume enough: "20 \<le> length ?ci"
  then have "?n \<le> length ?ci" by (rule n_validation_bounded)
  moreover have "distinct ?ci" by (simp add: complete_indices_def)
  ultimately
  have "length (choice ?ci ?n) = ?n \<and> distinct (choice ?ci ?n)
      \<and> set (choice ?ci ?n) \<subseteq> set ?ci"
    by (rule sampler)
  then have len: "length (choice ?ci ?n) = ?n" and dist: "distinct (choice ?ci ?n)"
    and sub: "set (choice ?ci ?n) \<subseteq> set ?ci"
    by simp_all
  have floor: "nat (max 10 \<lfloor>real (length ?ci) * 0.15\<rfloor>) = ?n"
    by (simp only: fifteen_percent_floor)
  from sub have complete: "list_all (row_complete df power_columns) (choice ?ci ?n)"
    by (auto simp: list_all_iff complete_indices_def)
  from create_validation_split_enough [OF assms(1) enough assms(3), of choice]
  obtain dfv info where "create_validation_split choice df power_columns default_ratio
       = Inr (dfv, Inr info)"
    and "validation_indices info = choice ?ci ?n"
    and "n_validation_points info = length (validation_indices info)"
    by blast
  with len dist complete floor
  show "\<exists>dfv info. create_validation_split choice df power_columns default_ratio
                 = Inr (dfv, Inr info)
               \<and> validation_indices info = choice ?ci
                    (nat (max 10 \<lfloor>real (length ?ci) * 0.15\<rfloor>))
               \<and> length (validation_indices info)
                    = nat (max 10 \<lfloor>real (length ?ci) * 0.15\<rfloor>)
               \<and> n_validation_points info = length (validation_indices info)
               \<and> distinct (validation_indices info)
               \<and> list_all (row_complete df power_columns) (validation_indices info)"
    by simp
qed

text \<open>Twenty complete rows give ten validation rows; three complete rows give the marker.\<close>

theorem create_validation_split_floor_witness:
  "(\<exists>dfv info. create_validation_split first_n (series_frame (replicate 20 (Some 1))) [''p'']
        default_ratio = Inr (dfv, Inr info)
      \<and> validation_indices info = [0, 1, 2, 3, 4, 5, 6, 7, 8, 9])
   \<and> create_validation_split first_n (series_frame (replicate 3 (Some 1))) [''p''] default_ratio
       = Inr (series_frame (replicate 3 (Some 1)),
              Inl ''Insufficient complete data for validation'')"
proof -
  have sampler: "n \<le> length xs \<Longrightarrow> distinct xs \<Longrightarrow>
      length (first_n xs n) = n \<and> distinct (first_n xs n) \<and> set (first_n xs n) \<subseteq> set xs"
    for xs :: "nat list" and n
    by (auto simp: first_n_def dest: in_set_takeD)
  have twenty: "20 \<le> length (complete_indices (series_frame (replicate 20 (Some 1))) [''p''])"
    and three: "length (complete_indices (series_frame (replicate 3 (Some 1))) [''p'']) < 20"
    and bounded: "length (complete_indices (series_frame (replicate 20 (Some 1))) [''p'']) < 2 ^ 32"
      "length (complete_indices (series_frame (replicate 3 (Some 1))) [''p'']) < 2 ^ 32"
    by (simp_all add: complete_indices_full)
  from create_validation_split_floor [OF missing_columns_series sampler bounded(1)] twenty
  have "\<exists>dfv info. create_validation_split first_n (series_frame (replicate 20 (Some 1))) [''p'']
        default_ratio = Inr (dfv, Inr info)
      \<and> validation_indices info = first_n [0 ..< 20] 10"
    by (auto simp: complete_indices_full)
  moreover have "first_n [0 ..< 20] 10 = [0, 1, 2, 3, 4, 5, 6, 7, 8, 9]"
    by (simp add: first_n_def upt_rec)
  moreover from create_validation_split_floor [OF missing_columns_series sampler bounded(2)]
    three
  have "create_validation_split first_n (series_frame (replicate 3 (Some 1))) [''p''] default_ratio
       = Inr (series_frame (replicate 3 (Some 1)),
              Inl ''Insufficient complete data for validation'')"
    by simp
  ultimately show ?thesis by simp
qed

text \<open>
  The claim as stated (the ceiling of 15%, with a minimum of 10) fails at 67 complete rows:
  15% of 67 is 10.05, the claim's count is 11, and the code chooses 10.
\<close>

theorem create_validation_split_ceiling_counterexample:
  "(case create_validation_split first_n (series_frame (replicate 67 (Some 1))) [''p''] default_ratio of
      Inr (dfv, Inr info) \<Rightarrow> n_validation_points info = 10
    | _ \<Rightarrow> False)
   \<and> length (complete_indices (series_frame (replicate 67 (Some 1))) [''p'']) = 67
   \<and> max 10 \<lceil>(67 :: real) * 0.15\<rceil> = 11"
proof -
  have "create_validation_split first_n (series_frame (replicate 67 (Some 1))) [''p''] default_ratio
      = Inr (dfv, Inr info) \<Longrightarrow> n_validation_points info = 10" for dfv info
    by (auto simp: create_validation_split_def Let_def missing_columns_series
        complete_indices_full n_validation_default first_n_def)
  moreover have "\<exists>dfv info. create_validation_split first_n
      (series_frame (replicate 67 (Some 1))) [''p''] default_ratio = Inr (dfv, Inr info)"
    by (simp add: create_validation_split_def Let_def missing_columns_series
        complete_indices_full)
  moreover have "\<lceil>(67 :: real) * 0.15\<rceil> = 11"
    by (simp add: ceiling_eq_iff)
  ultimately show ?thesis
    by (auto simp: complete_indices_full)
qed

section \<open>Interpolator strategies\<close>

text \<open>
  The four strategy classes. An instance is a record of the attributes the methods read and
  write; the trained artefacts of the numerical libraries are kept as the data they were
  trained on, and the values the libraries compute are an argument of the model (the record
  \<open>library\<close>): the cubic interpolant of scipy, the Gaussian-process mean of scikit-learn,
  the quantile of pandas, and the trained path of the multi-output strategy (the rows with
  enough features to train on, and the prediction with the LightGBM models followed by the
  configured constraints). Of the exceptions raised inside these libraries the model has
  those that the shape of the input decides: scipy refuses abscissae with duplicates, and
  the scaler and LightGBM refuse a target that is not one column.
\<close>

datatype strategy =
    SplineInterpolator
  | GaussianProcessInterpolator
  | PhysicsBasedInterpolator
  | MultiOutputRegressionInterpolator

text \<open>\<^verbatim>\<open>InterpolationConfig\<close>: its constructor reads the recommendations and their
  configuration block with \<^verbatim>\<open>get\<close>.\<close>

record interpolation_config =
  ic_gap_analysis :: json
  ic_recommendations :: json
  ic_config :: json

definition new_interpolation_config :: "json \<Rightarrow> py_error + interpolation_config" where
  "new_interpolation_config gap_analysis =
     bind_err (dict_get gap_analysis ''recommendations'' (JObj [])) (\<lambda>recs.
     bind_err (dict_get recs ''configuration'' (JObj [])) (\<lambda>cfg.
       Inr \<lparr> ic_gap_analysis = gap_analysis, ic_recommendations = recs, ic_config = cfg \<rparr>))"

definition get_method_config :: "interpolation_config \<Rightarrow> string \<Rightarrow> py_error + json" where
  "get_method_config ic method_name = dict_get (ic_config ic) method_name (JObj [])"

record physics_parameters =
  max_capacity :: real
  mean_daytime :: real
  peak_hour :: int

text \<open>The attribute \<^verbatim>\<open>model\<close> of the multi-output strategy: \<^verbatim>\<open>None\<close>, a dict of
  per-column models (its keys), or one model for all columns.\<close>

datatype mo_model = NoModel | ModelDict "string list" | SingleModel

record interpolator =
  cls :: strategy
  is_fitted :: bool
  metadata :: "(string \<times> json) list"
  interp_config :: "interpolation_config option"
  gp_models :: "(string \<times> (int \<times> real) list) list"
  system_parameters :: "(string \<times> physics_parameters) list"
  model :: mo_model
  trained_on :: "(frame \<times> frame option) option"

record library =
  interp1d :: "(int \<times> real) list \<Rightarrow> int \<Rightarrow> real"
  gp_predict :: "(int \<times> real) list \<Rightarrow> int \<Rightarrow> real"
  quantile :: "real list \<Rightarrow> real \<Rightarrow> real"
  usable_rows :: "frame \<Rightarrow> frame option \<Rightarrow> json \<Rightarrow> string \<Rightarrow> nat"
  lgb_interpolate :: "interpolator \<Rightarrow> frame \<Rightarrow> string list \<Rightarrow> string \<Rightarrow> frame option
                        \<Rightarrow> py_error + frame"

subsection \<open>Construction\<close>

text \<open>
  The keyword parameters of \<^verbatim>\<open>__init__\<close>. \<^verbatim>\<open>SplineInterpolator\<close> defines none and inherits
  \<^verbatim>\<open>BaseInterpolator.__init__(self, config = None)\<close>; the Gaussian-process and the
  physics-based class define \<^verbatim>\<open>__init__(self, config = None)\<close>; only the multi-output class
  has the parameter \<^verbatim>\<open>interpolation_config\<close>. A call with another keyword raises
  \<^verbatim>\<open>TypeError\<close>. The keyword arguments of a call are given by name; the values this code
  passes are \<^verbatim>\<open>InterpolationConfig\<close> objects.
\<close>

fun init_params :: "strategy \<Rightarrow> string list" where
  "init_params SplineInterpolator = [''config'']"
| "init_params GaussianProcessInterpolator = [''config'']"
| "init_params PhysicsBasedInterpolator = [''config'']"
| "init_params MultiOutputRegressionInterpolator = [''config'', ''interpolation_config'']"

definition new_interpolator :: "strategy \<Rightarrow> interpolation_config option \<Rightarrow> interpolator" where
  "new_interpolator c ic = \<lparr> cls = c, is_fitted = False, metadata = [], interp_config = ic,
     gp_models = [], system_parameters = [], model = NoModel, trained_on = None \<rparr>"

definition construct ::
  "strategy \<Rightarrow> (string \<times> interpolation_config) list \<Rightarrow> py_error + interpolator" where
  "construct c kwargs =
     (if list_all (\<lambda>(k, v). k \<in> set (init_params c)) kwargs
      then Inr (new_interpolator c (map_of kwargs ''interpolation_config''))
      else Inl (TypeError ''__init__() got an unexpected keyword argument''))"

subsection \<open>Filling and fitting\<close>

text \<open>
  \<^verbatim>\<open>create_features\<close>, as far as it can fail on a typed frame: it reads the time column
  with \<^verbatim>\<open>.dt\<close> after each of the assignments to \<^verbatim>\<open>hour\<close>, \<^verbatim>\<open>day_of_year\<close> and \<^verbatim>\<open>month\<close>, so
  a time column of one of these names has been overwritten with integers by then. The
  feature columns are read by the trained models only, and are not kept.
\<close>

definition create_features :: "frame \<Rightarrow> string \<Rightarrow> py_error + frame" where
  "create_features df time_column =
     (if time_name df \<noteq> Some time_column then Inl (KeyError time_column)
      else if time_column \<in> {''hour'', ''day_of_year'', ''month''} then Inl AttributeError
      else Inr df)"

text \<open>The known points of a column, and the filling of its missing cells by a function of
  the timestamp.\<close>

definition known_points :: "int list \<Rightarrow> cell list \<Rightarrow> (int \<times> real) list" where
  "known_points ts vs = concat (map2 (\<lambda>t v. case v of Some x \<Rightarrow> [(t, x)] | None \<Rightarrow> []) ts vs)"

definition fill_missing :: "(int \<Rightarrow> real) \<Rightarrow> int list \<Rightarrow> cell list \<Rightarrow> cell list" where
  "fill_missing f ts vs = map2 (\<lambda>t v. case v of Some x \<Rightarrow> Some x | None \<Rightarrow> Some (f t)) ts vs"

definition count_known :: "cell list \<Rightarrow> nat" where
  "count_known vs = length (filter (\<lambda>v. v \<noteq> None) vs)"

text \<open>
  The methods \<^verbatim>\<open>fit\<close> and \<^verbatim>\<open>interpolate\<close> take the frame, the power columns and the time
  column; \<open>extra\<close> is the list of the positional arguments a call passes beyond these three.
  Only the multi-output class has a fourth parameter (\<^verbatim>\<open>weather_data = None\<close>); the other
  classes raise \<^verbatim>\<open>TypeError\<close> on a fourth argument.
\<close>

definition too_many_arguments :: py_error where
  "too_many_arguments = TypeError ''takes 4 positional arguments but 5 were given''"

definition must_fit :: py_error where
  "must_fit = ValueError ''Must call fit() before interpolate()''"

definition fit_Spline ::
  "interpolator \<Rightarrow> frame \<Rightarrow> string list \<Rightarrow> string \<Rightarrow> frame option list \<Rightarrow> py_error + interpolator" where
  "fit_Spline self df power_columns time_column extra =
     (if extra \<noteq> [] then Inl too_many_arguments
      else Inr (self \<lparr> is_fitted := True,
                  metadata := [(''method'', JStr ''cubic_spline''),
                    (''interpolation_order'', JNum 3), (''extrapolation'', JStr ''constant'')] \<rparr>))"

text \<open>
  The loop of \<^verbatim>\<open>SplineInterpolator.interpolate\<close>. \<^verbatim>\<open>interp1d(kind='cubic')\<close> is built for
  every column with more than three readings, whether or not a reading is missing, and
  scipy raises \<^verbatim>\<open>ValueError\<close> when two of the known points have the same timestamp.
\<close>

definition duplicate_abscissae :: py_error where
  "duplicate_abscissae = ValueError ''Expect x to not have duplicates''"

fun spline_columns ::
  "library \<Rightarrow> int list \<Rightarrow> string list \<Rightarrow> columns \<Rightarrow> py_error + columns" where
  "spline_columns lib ts [] cs = Inr cs"
| "spline_columns lib ts (col # rest) cs =
     (case map_of cs col of
        Some vs \<Rightarrow>
          if count_known vs > 3 then
            (if distinct (map fst (known_points ts vs))
             then spline_columns lib ts rest
                    (AList.update col (fill_missing (interp1d lib (known_points ts vs)) ts vs) cs)
             else Inl duplicate_abscissae)
          else spline_columns lib ts rest cs
      | None \<Rightarrow> spline_columns lib ts rest cs)"

definition interpolate_Spline ::
  "library \<Rightarrow> interpolator \<Rightarrow> frame \<Rightarrow> string list \<Rightarrow> string \<Rightarrow> frame option list
     \<Rightarrow> py_error + frame" where
  "interpolate_Spline lib self df power_columns time_column extra =
     (if extra \<noteq> [] then Inl too_many_arguments
      else if time_name df \<noteq> Some time_column then Inl (KeyError time_column)
      else bind_err (spline_columns lib (stamps df) power_columns (cols df)) (\<lambda>filled.
             apply_solar_constraints (df \<lparr> cols := filled \<rparr>) power_columns time_column))"

subsection \<open>The Gaussian-process and the physics-based strategy\<close>

fun fit_gp_columns ::
  "int list \<Rightarrow> string list \<Rightarrow> columns \<Rightarrow> (string \<times> (int \<times> real) list) list
     \<Rightarrow> (string \<times> (int \<times> real) list) list" where
  "fit_gp_columns ts [] cs models = models"
| "fit_gp_columns ts (col # rest) cs models =
     fit_gp_columns ts rest cs
       (case map_of cs col of
          Some vs \<Rightarrow>
            if count_known vs > 10 then AList.update col (known_points ts vs) models else models
        | None \<Rightarrow> models)"

definition fit_GP ::
  "interpolator \<Rightarrow> frame \<Rightarrow> string list \<Rightarrow> string \<Rightarrow> frame option list \<Rightarrow> py_error + interpolator" where
  "fit_GP self df power_columns time_column extra =
     (if extra \<noteq> [] then Inl too_many_arguments
      else
        bind_err (create_features df time_column) (\<lambda>df_features.
          let models = fit_gp_columns (stamps df_features) power_columns (cols df_features)
                         (gp_models self)
          in Inr (self \<lparr> gp_models := models, is_fitted := True,
                    metadata := [(''method'', JStr ''gaussian_process''),
                      (''models_trained'', JNum (real (length models))),
                      (''kernel_type'', JStr ''RBF + Matern + WhiteNoise'')] \<rparr>)))"

fun gp_columns ::
  "library \<Rightarrow> (string \<times> (int \<times> real) list) list \<Rightarrow> int list \<Rightarrow> string list \<Rightarrow> columns
     \<Rightarrow> columns" where
  "gp_columns lib models ts [] cs = cs"
| "gp_columns lib models ts (col # rest) cs =
     gp_columns lib models ts rest
       (case (map_of models col, map_of cs col) of
          (Some trained, Some vs) \<Rightarrow> AList.update col (fill_missing (gp_predict lib trained) ts vs) cs
        | _ \<Rightarrow> cs)"

definition interpolate_GP ::
  "library \<Rightarrow> interpolator \<Rightarrow> frame \<Rightarrow> string list \<Rightarrow> string \<Rightarrow> frame option list
     \<Rightarrow> py_error + frame" where
  "interpolate_GP lib self df power_columns time_column extra =
     (if extra \<noteq> [] then Inl too_many_arguments
      else if \<not> is_fitted self then Inl must_fit
      else
        bind_err (create_features df time_column) (\<lambda>df_features.
          apply_solar_constraints
            (df \<lparr> cols := gp_columns lib (gp_models self) (stamps df) power_columns (cols df) \<rparr>)
            power_columns time_column))"

text \<open>The daytime readings of a column with their row indices, and \<^verbatim>\<open>idxmax\<close>: the index
  of the first greatest reading.\<close>

definition daytime_data :: "int list \<Rightarrow> cell list \<Rightarrow> (nat \<times> real) list" where
  "daytime_data ts vs =
     concat (map (\<lambda>(i, t, v). case v of
                Some x \<Rightarrow> if 6 \<le> hour_of t \<and> hour_of t \<le> 18 then [(i, x)] else []
              | None \<Rightarrow> [])
        (zip [0 ..< length vs] (zip ts vs)))"

fun idxmax :: "(nat \<times> real) list \<Rightarrow> nat" where
  "idxmax [] = 12"
| "idxmax [(i, x)] = i"
| "idxmax ((i, x) # (j, y) # rest) = (if y > x then idxmax ((j, y) # rest) else idxmax ((i, x) # rest))"

fun fit_physics_columns ::
  "library \<Rightarrow> int list \<Rightarrow> string list \<Rightarrow> columns \<Rightarrow> (string \<times> physics_parameters) list
     \<Rightarrow> (string \<times> physics_parameters) list" where
  "fit_physics_columns lib ts [] cs params = params"
| "fit_physics_columns lib ts (col # rest) cs params =
     fit_physics_columns lib ts rest cs
       (case map_of cs col of
          Some vs \<Rightarrow>
            (let daytime = daytime_data ts vs in
             if length daytime > 0
             then AList.update col
                    \<lparr> max_capacity = quantile lib (map snd daytime) 0.95,
                      mean_daytime = mean (map snd daytime),
                      peak_hour = int (idxmax daytime) \<rparr> params
             else params)
        | None \<Rightarrow> params)"

definition fit_Physics ::
  "library \<Rightarrow> interpolator \<Rightarrow> frame \<Rightarrow> string list \<Rightarrow> string \<Rightarrow> frame option list
     \<Rightarrow> py_error + interpolator" where
  "fit_Physics lib self df power_columns time_column extra =
     (if extra \<noteq> [] then Inl too_many_arguments
      else if time_name df \<noteq> Some time_column then Inl (KeyError time_column)
      else
        let params = fit_physics_columns lib (stamps df) power_columns (cols df)
                       (system_parameters self)
        in Inr (self \<lparr> system_parameters := params, is_fitted := True,
                  metadata := [(''method'', JStr ''physics_based''),
                    (''estimated_parameters'', JNum (real (length params)))] \<rparr>))"

text \<open>\<^verbatim>\<open>calculate_theoretical_solar_curve\<close> at one hour.\<close>

definition theoretical_solar_curve :: "int \<Rightarrow> real \<Rightarrow> int \<Rightarrow> real" where
  "theoretical_solar_curve hour capacity peak =
     (if 6 \<le> hour \<and> hour \<le> 18
      then capacity * max 0 (cos (real_of_int (hour - peak) * pi / 6))
      else 0)"

fun physics_columns ::
  "(string \<times> physics_parameters) list \<Rightarrow> int list \<Rightarrow> string list \<Rightarrow> columns \<Rightarrow> columns" where
  "physics_columns params ts [] cs = cs"
| "physics_columns params ts (col # rest) cs =
     physics_columns params ts rest
       (case (map_of params col, map_of cs col) of
          (Some p, Some vs) \<Rightarrow>
            AList.update col
              (fill_missing (\<lambda>t. theoretical_solar_curve (hour_of t) (max_capacity p) (peak_hour p))
                 ts vs) cs
        | _ \<Rightarrow> cs)"

definition interpolate_Physics ::
  "interpolator \<Rightarrow> frame \<Rightarrow> string list \<Rightarrow> string \<Rightarrow> frame option list \<Rightarrow> py_error + frame" where
  "interpolate_Physics self df power_columns time_column extra =
     (if extra \<noteq> [] then Inl too_many_arguments
      else if \<not> is_fitted self then Inl must_fit
      else if time_name df \<noteq> Some time_column then Inl (KeyError time_column)
      else
        let with_hour = AList.update ''hour''
              (map (\<lambda>t. Some (real_of_int (hour_of t))) (stamps df)) (cols df);
            filled = physics_columns (system_parameters self) (stamps df) power_columns with_hour
        in apply_solar_constraints (drop_hour (df \<lparr> cols := filled \<rparr>))
             power_columns time_column)"

subsection \<open>The multi-output regression strategy\<close>

text \<open>The optional fourth parameter \<^verbatim>\<open>weather_data = None\<close>.\<close>

fun weather_argument :: "frame option list \<Rightarrow> py_error + frame option" where
  "weather_argument [] = Inr None"
| "weather_argument [w] = Inr w"
| "weather_argument _ = Inl (TypeError ''takes from 4 to 5 positional arguments'')"

text \<open>The keys of a dict filled by assignments in the order of a list.\<close>

definition assigned_keys :: "string list \<Rightarrow> string list" where
  "assigned_keys ks = fold (\<lambda>k acc. if k \<in> set acc then acc else acc @ [k]) ks []"

text \<open>
  \<^verbatim>\<open>_fit_independent_with_correlation\<close> (mode a): a target column with fewer than 50
  readings, or with fewer than 50 rows usable for training, is skipped.
\<close>

fun fit_correlated_columns ::
  "library \<Rightarrow> frame \<Rightarrow> frame option \<Rightarrow> json \<Rightarrow> string list \<Rightarrow> string list
     \<Rightarrow> py_error + string list" where
  "fit_correlated_columns lib df weather method_config [] trained = Inr trained"
| "fit_correlated_columns lib df weather method_config (target_col # rest) trained =
     (case map_of (cols df) target_col of
        None \<Rightarrow> Inl (KeyError target_col)
      | Some vs \<Rightarrow>
          if count_known vs < 50
            then fit_correlated_columns lib df weather method_config rest trained
          else if usable_rows lib df weather method_config target_col < 50
            then fit_correlated_columns lib df weather method_config rest trained
          else fit_correlated_columns lib df weather method_config rest
                 (if target_col \<in> set trained then trained else trained @ [target_col]))"

definition fit_independent_with_correlation ::
  "library \<Rightarrow> interpolator \<Rightarrow> frame \<Rightarrow> string list \<Rightarrow> string \<Rightarrow> frame option \<Rightarrow> json
     \<Rightarrow> py_error + interpolator" where
  "fit_independent_with_correlation lib self df power_columns time_column weather method_config =
     bind_err (create_features df time_column) (\<lambda>df_features.
        bind_err (fit_correlated_columns lib df weather method_config power_columns []) (\<lambda>trained.
          Inr (self \<lparr> model := ModelDict trained, trained_on := Some (df, weather),
                 is_fitted := True,
                 metadata := [(''method'', JStr ''multi_output_lgb_with_safe_correlation''),
                   (''models_trained'', JNum (real (length trained))),
                   (''correlation_features_used'', JBool True),
                   (''leakage_prevention'', JStr ''historical_features_only'')] \<rparr>)))"

text \<open>
  \<^verbatim>\<open>_fit_independent_models\<close> (mode b) and \<^verbatim>\<open>_fit_multi_output_model\<close> (mode c): the models
  are trained only when more than 100 rows are complete across the power columns; otherwise
  the attribute \<^verbatim>\<open>model\<close> keeps its value (\<^verbatim>\<open>None\<close> on a new instance), and the instance is
  marked fitted all the same. The rows of the feature frame are those of the frame (the
  weather timestamps are taken to be unique). Mode c scales the readings of all the power
  columns as one target and trains one \<^verbatim>\<open>LGBMRegressor\<close> on it: the scaler raises
  \<^verbatim>\<open>ValueError\<close> on a target without columns, and \<^verbatim>\<open>LGBMRegressor.fit\<close> raises it on a target
  of two columns or more.
\<close>

definition model_count :: "mo_model \<Rightarrow> nat" where
  "model_count m = (case m of ModelDict ks \<Rightarrow> length ks | _ \<Rightarrow> 0)"

definition fit_independent_models ::
  "interpolator \<Rightarrow> frame \<Rightarrow> string list \<Rightarrow> string \<Rightarrow> frame option \<Rightarrow> json
     \<Rightarrow> py_error + interpolator" where
  "fit_independent_models self df power_columns time_column weather method_config =
     bind_err (create_features df time_column) (\<lambda>df_features.
      case missing_columns df power_columns of
        c # _ \<Rightarrow> Inl (KeyError c)
      | [] \<Rightarrow>
          let complete = length (complete_indices df power_columns);
              self1 = (if complete > 100
                       then self \<lparr> model := ModelDict (assigned_keys power_columns),
                                   trained_on := Some (df, weather) \<rparr>
                       else self)
          in Inr (self1 \<lparr> is_fitted := True,
                    metadata := [(''method'', JStr ''multi_output_lgb''),
                      (''models_trained'', JNum (real (model_count (model self1)))),
                      (''training_samples'', JNum (real complete))] \<rparr>))"

definition fit_multi_output_model ::
  "interpolator \<Rightarrow> frame \<Rightarrow> string list \<Rightarrow> string \<Rightarrow> frame option \<Rightarrow> json
     \<Rightarrow> py_error + interpolator" where
  "fit_multi_output_model self df power_columns time_column weather method_config =
     bind_err (create_features df time_column) (\<lambda>df_features.
      case missing_columns df power_columns of
        c # _ \<Rightarrow> Inl (KeyError c)
      | [] \<Rightarrow>
          let complete = length (complete_indices df power_columns) in
          if complete > 100 \<and> power_columns = []
            then Inl (ValueError ''Found array with 0 feature(s)'')
          else if complete > 100 \<and> length power_columns > 1
            then Inl (ValueError ''y should be a 1d array'')
          else
            let self1 = (if complete > 100
                         then self \<lparr> model := SingleModel, trained_on := Some (df, weather) \<rparr>
                         else self)
            in Inr (self1 \<lparr> is_fitted := True,
                      metadata := [(''method'', JStr ''multi_output_lgb_single_model''),
                        (''models_trained'', JNum 1),
                        (''training_samples'', JNum (real complete))] \<rparr>))"

definition fit_MultiOutput ::
  "library \<Rightarrow> interpolator \<Rightarrow> frame \<Rightarrow> string list \<Rightarrow> string \<Rightarrow> frame option list
     \<Rightarrow> py_error + interpolator" where
  "fit_MultiOutput lib self df power_columns time_column extra =
     bind_err (weather_argument extra) (\<lambda>weather_data.
     bind_err (case interp_config self of
                 Some ic \<Rightarrow> get_method_config ic ''multi_output_regression''
               | None \<Rightarrow> Inr (JObj [])) (\<lambda>method_config.
     bind_err (dict_get method_config ''model_equipment_independently'' (JBool True))
       (\<lambda>model_independently.
     bind_err (dict_get method_config ''use_equipment_correlation'' (JBool False))
       (\<lambda>use_correlation.
       if truthy model_independently \<and> truthy use_correlation then
         fit_independent_with_correlation lib self df power_columns time_column weather_data
           method_config
       else if truthy model_independently then
         fit_independent_models self df power_columns time_column weather_data method_config
       else
         fit_multi_output_model self df power_columns time_column weather_data method_config))))"

text \<open>
  \<^verbatim>\<open>MultiOutputRegressionInterpolator.interpolate\<close>. Without a fitted, non-empty model it
  falls back to a new \<^verbatim>\<open>SplineInterpolator\<close>, whose \<^verbatim>\<open>fit\<close> and \<^verbatim>\<open>interpolate\<close> it calls
  with the weather data as a fourth positional argument. \<^verbatim>\<open>not self.model\<close> holds for
  \<^verbatim>\<open>None\<close> and for the empty dict.
\<close>

definition model_absent :: "mo_model \<Rightarrow> bool" where
  "model_absent m = (m = NoModel \<or> m = ModelDict [])"

definition interpolate_MultiOutput ::
  "library \<Rightarrow> interpolator \<Rightarrow> frame \<Rightarrow> string list \<Rightarrow> string \<Rightarrow> frame option list
     \<Rightarrow> py_error + frame" where
  "interpolate_MultiOutput lib self df power_columns time_column extra =
     bind_err (weather_argument extra) (\<lambda>weather_data.
       if \<not> is_fitted self \<or> model_absent (model self) then
         bind_err (construct SplineInterpolator []) (\<lambda>spline_interpolator.
         bind_err (fit_Spline spline_interpolator df power_columns time_column [weather_data])
           (\<lambda>fitted.
           interpolate_Spline lib fitted df power_columns time_column [weather_data]))
       else lgb_interpolate lib self df power_columns time_column weather_data)"

subsection \<open>Dispatch on the class\<close>

definition fit ::
  "library \<Rightarrow> interpolator \<Rightarrow> frame \<Rightarrow> string list \<Rightarrow> string \<Rightarrow> frame option list
     \<Rightarrow> py_error + interpolator" where
  "fit lib self df power_columns time_column extra =
     (case cls self of
        SplineInterpolator \<Rightarrow> fit_Spline self df power_columns time_column extra
      | GaussianProcessInterpolator \<Rightarrow> fit_GP self df power_columns time_column extra
      | PhysicsBasedInterpolator \<Rightarrow> fit_Physics lib self df power_columns time_column extra
      | MultiOutputRegressionInterpolator \<Rightarrow>
          fit_MultiOutput lib self df power_columns time_column extra)"

definition interpolate ::
  "library \<Rightarrow> interpolator \<Rightarrow> frame \<Rightarrow> string list \<Rightarrow> string \<Rightarrow> frame option list
     \<Rightarrow> py_error + frame" where
  "interpolate lib self df power_columns time_column extra =
     (case cls self of
        SplineInterpolator \<Rightarrow> interpolate_Spline lib self df power_columns time_column extra
      | GaussianProcessInterpolator \<Rightarrow>
          interpolate_GP lib self df power_columns time_column extra
      | PhysicsBasedInterpolator \<Rightarrow>
          interpolate_Physics self df power_columns time_column extra
      | MultiOutputRegressionInterpolator \<Rightarrow>
          interpolate_MultiOutput lib self df power_columns time_column extra)"

section \<open>The interpolation engine\<close>

text \<open>The registry \<^verbatim>\<open>self.interpolators\<close> of \<^verbatim>\<open>InterpolationEngine\<close>.\<close>

definition interpolators :: "(string \<times> strategy) list" where
  "interpolators = [
     (''spline_interpolation'', SplineInterpolator),
     (''gaussian_process'', GaussianProcessInterpolator),
     (''physics_based_model'', PhysicsBasedInterpolator),
     (''multi_output_regression'', MultiOutputRegressionInterpolator),
     (''system_level_interpolation'', MultiOutputRegressionInterpolator),
     (''degradation_aware_interpolation'', GaussianProcessInterpolator),
     (''maintenance_aware_interpolation'', PhysicsBasedInterpolator),
     (''equipment_specific_interpolation'', SplineInterpolator)]"

text \<open>
  \<^verbatim>\<open>if method not in self.interpolators: raise ValueError\<close>, then
  \<^verbatim>\<open>self.interpolators[method]\<close>. A list or a dict is not hashable: the membership test
  itself raises \<^verbatim>\<open>TypeError\<close>.
\<close>

fun registered :: "json \<Rightarrow> py_error + string \<times> strategy" where
  "registered (JStr m) =
     (case map_of interpolators m of
        Some c \<Rightarrow> Inr (m, c)
      | None \<Rightarrow> Inl (ValueError ''Unknown interpolation method''))"
| "registered (JList xs) = Inl (TypeError ''unhashable type'')"
| "registered (JObj kvs) = Inl (TypeError ''unhashable type'')"
| "registered _ = Inl (ValueError ''Unknown interpolation method'')"

text \<open>\<^verbatim>\<open>extract_data_structure\<close>\<close>

definition extract_data_structure :: "json \<Rightarrow> py_error + (string \<times> json) list" where
  "extract_data_structure gap_analysis =
     bind_err (dict_get gap_analysis ''structure'' (JObj [])) (\<lambda>structure.
     bind_err (dict_get structure ''time_column'' JNull) (\<lambda>tc.
     bind_err (dict_get structure ''power_columns'' (JList [])) (\<lambda>pcs.
     bind_err (dict_get structure ''time_frequency'' JNull) (\<lambda>freq.
     bind_err (dict_get structure ''total_rows'' JNull) (\<lambda>total.
       Inr [(''time_column'', tc), (''power_columns'', pcs), (''time_frequency'', freq),
            (''total_rows'', total)])))))"

text \<open>
  The frame operations are typed: the time column is a string and the power columns are a
  list of strings. A structure section of another shape that passes the engine's truth test
  is outside the model, which reports it as a \<^verbatim>\<open>TypeError\<close>.
\<close>

fun as_string :: "json \<Rightarrow> string option" where
  "as_string (JStr s) = Some s"
| "as_string _ = None"

fun as_strings :: "json list \<Rightarrow> string list option" where
  "as_strings [] = Some []"
| "as_strings (x # xs) =
     (case (as_string x, as_strings xs) of
        (Some s, Some ss) \<Rightarrow> Some (s # ss)
      | _ \<Rightarrow> None)"

definition typed_structure :: "json \<Rightarrow> json \<Rightarrow> py_error + string \<times> string list" where
  "typed_structure tc pcs =
     (case (tc, pcs) of
        (JStr t, JList xs) \<Rightarrow>
          (case as_strings xs of
             Some ps \<Rightarrow> Inr (t, ps)
           | None \<Rightarrow> Inl (TypeError ''power_columns is not a list of strings''))
      | _ \<Rightarrow> Inl (TypeError ''time_column is not a string or power_columns is not a list''))"

text \<open>
  \<^verbatim>\<open>InterpolationConfig.validate_configuration\<close>: the engine only prints its result, which
  is whether a configuration block was found; reading a block that is not a dict raises.
\<close>

definition validate_configuration :: "interpolation_config \<Rightarrow> string \<Rightarrow> py_error + bool" where
  "validate_configuration ic method_name =
     bind_err (get_method_config ic method_name) (\<lambda>method_config.
       if \<not> truthy method_config then Inr False
       else
         (case method_config of
            JObj kvs \<Rightarrow> Inr True
          | JNum x \<Rightarrow>
              if method_name = ''multi_output_regression''
              then Inl (TypeError ''argument is not iterable'') else Inl AttributeError
          | JBool b \<Rightarrow>
              if method_name = ''multi_output_regression''
              then Inl (TypeError ''argument is not iterable'') else Inl AttributeError
          | _ \<Rightarrow> Inl AttributeError))"

text \<open>
  The result of a run: the method used, the structure, for every power column the true and
  the interpolated values at the validation rows (the arguments of the Metrics Calculator;
  \<open>None\<close> when validation was not asked for or was skipped), the final frame, the
  interpolator's metadata and the number of missing values filled per column.
\<close>

record results =
  method_used :: string
  data_structure :: "(string \<times> json) list"
  validation_pairs :: "(string \<times> cell list \<times> cell list) list option"
  final_frame :: frame
  interpolator_metadata :: "(string \<times> json) list"
  missing_values_filled :: "(string \<times> int) list"

fun collect_pairs ::
  "validation_info \<Rightarrow> frame \<Rightarrow> string list \<Rightarrow> (string \<times> cell list \<times> cell list) list
     \<Rightarrow> py_error + (string \<times> cell list \<times> cell list) list" where
  "collect_pairs info df_interpolated [] acc = Inr acc"
| "collect_pairs info df_interpolated (col # rest) acc =
     (case map_of (validation_data info) col of
        None \<Rightarrow> collect_pairs info df_interpolated rest acc
      | Some y_true \<Rightarrow>
          (case map_of (cols df_interpolated) col of
             None \<Rightarrow> Inl (KeyError col)
           | Some vs \<Rightarrow>
               collect_pairs info df_interpolated rest
                 (AList.update col (y_true, take_rows (validation_indices info) vs) acc)))"

definition count_missing :: "cell list \<Rightarrow> int" where
  "count_missing vs = int (length (filter (\<lambda>v. v = None) vs))"

fun filled_counts :: "frame \<Rightarrow> frame \<Rightarrow> string list \<Rightarrow> (string \<times> int) list \<Rightarrow> (string \<times> int) list" where
  "filled_counts df df_final [] acc = acc"
| "filled_counts df df_final (col # rest) acc =
     filled_counts df df_final rest
       (case (map_of (cols df) col, map_of (cols df_final) col) of
          (Some before, Some after) \<Rightarrow>
            AList.update col (count_missing before - count_missing after) acc
        | _ \<Rightarrow> acc)"

text \<open>
  \<^verbatim>\<open>run_interpolation\<close>, without its file input and output: the frame and the gap-analysis
  document are the files read, \<open>weather_data\<close> is \<^verbatim>\<open>self.weather_data\<close> after the optional
  load. The engine constructs the strategy with the keyword \<^verbatim>\<open>interpolation_config\<close> and
  passes the weather data as a fourth positional argument to \<^verbatim>\<open>fit\<close> and \<^verbatim>\<open>interpolate\<close>.
\<close>

definition run_validation ::
  "library \<Rightarrow> (nat list \<Rightarrow> nat \<Rightarrow> nat list) \<Rightarrow> frame \<Rightarrow> json \<Rightarrow> strategy \<Rightarrow> string list \<Rightarrow> string
     \<Rightarrow> frame option \<Rightarrow> py_error + (string \<times> cell list \<times> cell list) list option" where
  "run_validation lib choice df gap_analysis interpolator_class power_columns time_column
       weather_data =
     bind_err (create_validation_split choice df power_columns default_ratio) (\<lambda>(df_val, info).
       case info of
         Inl diagnostic \<Rightarrow> Inr None
       | Inr validation \<Rightarrow>
           bind_err (new_interpolation_config gap_analysis) (\<lambda>ic.
           bind_err (construct interpolator_class [(''interpolation_config'', ic)]) (\<lambda>created.
           bind_err (fit lib created df_val power_columns time_column [weather_data]) (\<lambda>fitted.
           bind_err (interpolate lib fitted df_val power_columns time_column [weather_data])
             (\<lambda>df_interpolated.
           bind_err (collect_pairs validation df_interpolated power_columns []) (\<lambda>pairs.
             Inr (Some pairs)))))))"

definition run_interpolation ::
  "library \<Rightarrow> (nat list \<Rightarrow> nat \<Rightarrow> nat list) \<Rightarrow> frame \<Rightarrow> json \<Rightarrow> string option \<Rightarrow> bool
     \<Rightarrow> frame option \<Rightarrow> py_error + results" where
  "run_interpolation lib choice df gap_analysis method_name validate weather_data =
     bind_err (extract_data_structure gap_analysis) (\<lambda>structure.
       let time_column = (case map_of structure ''time_column'' of Some v \<Rightarrow> v | None \<Rightarrow> JNull);
           power_columns = (case map_of structure ''power_columns'' of Some v \<Rightarrow> v | None \<Rightarrow> JNull)
       in
       if \<not> truthy time_column \<or> \<not> truthy power_columns
       then Inl (ValueError ''Could not extract data structure from gap analysis'')
       else
         bind_err (get_recommended_method gap_analysis method_name) (\<lambda>resolved.
         bind_err (registered resolved) (\<lambda>(used, interpolator_class).
         bind_err (typed_structure time_column power_columns) (\<lambda>(tc, pcs).
         bind_err (if validate
                   then run_validation lib choice df gap_analysis interpolator_class pcs tc
                          weather_data
                   else Inr None) (\<lambda>pairs.
         bind_err (new_interpolation_config gap_analysis) (\<lambda>ic.
         bind_err (construct interpolator_class [(''interpolation_config'', ic)]) (\<lambda>created.
         bind_err (validate_configuration ic used) (\<lambda>valid.
         bind_err (fit lib created df pcs tc [weather_data]) (\<lambda>fitted.
         bind_err (interpolate lib fitted df pcs tc [weather_data]) (\<lambda>df_final.
           Inr \<lparr> method_used = used,
                 data_structure = structure,
                 validation_pairs = pairs,
                 final_frame = df_final,
                 interpolator_metadata = metadata fitted,
                 missing_values_filled = filled_counts df df_final pcs [] \<rparr>))))))))))"

section \<open>Fit state, fallback and call signatures\<close>

text \<open>A library for the closed examples; none of them reaches a call of it.\<close>

definition example_library :: library where
  "example_library = \<lparr> interp1d = (\<lambda>points t. 0), gp_predict = (\<lambda>points t. 0),
     quantile = (\<lambda>xs q. 0), usable_rows = (\<lambda>df weather method_config col. 0),
     lgb_interpolate = (\<lambda>self df power_columns time_column weather. Inr df) \<rparr>"

lemma constrain_columns_error:
  "constrain_columns m pcs cs = Inl e \<Longrightarrow>
     e = ValueError ''cannot set a frame with no defined index and a scalar''"
  by (induction pcs arbitrary: cs) (auto simp: constrain_step split: option.splits if_splits)

lemma apply_solar_constraints_error:
  "apply_solar_constraints df pcs tc = Inl e \<Longrightarrow>
     e = KeyError tc \<or> e = ValueError ''cannot set a frame with no defined index and a scalar''"
  by (cases "constrain_columns (map (\<lambda>h. h \<le> 5 \<or> h \<ge> 19) (map hour_of (stamps df))) pcs
         (AList.update ''hour'' (map (\<lambda>h. Some (real_of_int h)) (map hour_of (stamps df))) (cols df))")
     (auto simp: apply_solar_constraints_def Let_def split: if_splits dest: constrain_columns_error)

lemma spline_columns_error:
  "spline_columns lib ts pcs cs = Inl e \<Longrightarrow> e = duplicate_abscissae"
  by (induction pcs arbitrary: cs) (auto split: option.splits if_splits)

lemma interpolate_Spline_not_must_fit:
  "interpolate_Spline lib self df pcs tc extra \<noteq> Inl must_fit"
proof (cases "spline_columns lib (stamps df) pcs (cols df)")
  case (Inl e)
  then have "e = duplicate_abscissae" by (rule spline_columns_error)
  with Inl show ?thesis
    by (simp add: interpolate_Spline_def must_fit_def too_many_arguments_def
        duplicate_abscissae_def)
next
  case (Inr filled)
  then show ?thesis
    by (auto simp: interpolate_Spline_def must_fit_def too_many_arguments_def
        dest: apply_solar_constraints_error)
qed

lemma interpolate_MultiOutput_fallback:
  "\<not> is_fitted self \<or> model_absent (model self) \<Longrightarrow>
   \<exists>msg. interpolate_MultiOutput lib self df pcs tc extra = Inl (TypeError msg)"
  by (cases extra rule: weather_argument.cases)
     (auto simp: interpolate_MultiOutput_def construct_def fit_Spline_def too_many_arguments_def)

lemma fit_independent_models_few:
  "fit_independent_models (new_interpolator c ic) df pcs tc w mc = Inr fitted \<Longrightarrow>
   length (complete_indices df pcs) \<le> 100 \<Longrightarrow> is_fitted fitted \<and> model fitted = NoModel"
  by (auto simp: fit_independent_models_def new_interpolator_def create_features_def Let_def
      split: if_splits list.splits)

lemma fit_multi_output_model_few:
  "fit_multi_output_model (new_interpolator c ic) df pcs tc w mc = Inr fitted \<Longrightarrow>
   length (complete_indices df pcs) \<le> 100 \<Longrightarrow> is_fitted fitted \<and> model fitted = NoModel"
  by (auto simp: fit_multi_output_model_def new_interpolator_def create_features_def Let_def
      split: if_splits list.splits)

lemma construct_rejects_keyword:
  "c \<noteq> MultiOutputRegressionInterpolator \<Longrightarrow>
   construct c [(''interpolation_config'', ic)]
     = Inl (TypeError ''__init__() got an unexpected keyword argument'')"
  by (cases c) (simp_all add: construct_def)

lemma construct_accepts_keyword:
  "construct MultiOutputRegressionInterpolator [(''interpolation_config'', ic)]
     = Inr (new_interpolator MultiOutputRegressionInterpolator (Some ic))"
  by (simp add: construct_def)

lemma construct_plain: "construct c [] = Inr (new_interpolator c None)"
  by (simp add: construct_def)

text \<open>
  Claim C4 (fit precondition), as amended. On a freshly constructed instance on which
  \<^verbatim>\<open>fit\<close> has never been called, \<^verbatim>\<open>interpolate\<close> of the Gaussian-process strategy and of
  the physics-based strategy raises the fit-precondition failure
  (\<^verbatim>\<open>ValueError("Must call fit() before interpolate()")\<close>) rather than returning a frame.
  The spline strategy has no fit precondition (its \<^verbatim>\<open>fit\<close> only records metadata): its
  \<^verbatim>\<open>interpolate\<close> never raises that failure. The multi-output strategy does not raise the
  fit-precondition failure either: an unfitted instance takes its spline-fallback branch.
\<close>

theorem fit_precondition:
  "interpolate lib (new_interpolator GaussianProcessInterpolator ic) df power_columns time_column []
     = Inl must_fit
   \<and> interpolate lib (new_interpolator PhysicsBasedInterpolator ic) df power_columns time_column []
     = Inl must_fit
   \<and> interpolate lib (new_interpolator SplineInterpolator ic) df power_columns time_column extra
     \<noteq> Inl must_fit
   \<and> interpolate lib (new_interpolator MultiOutputRegressionInterpolator ic) df power_columns
        time_column extra \<noteq> Inl must_fit"
proof -
  have gp: "interpolate lib (new_interpolator GaussianProcessInterpolator ic) df power_columns
      time_column [] = Inl must_fit"
    by (simp add: interpolate_def new_interpolator_def interpolate_GP_def)
  have physics: "interpolate lib (new_interpolator PhysicsBasedInterpolator ic) df power_columns
      time_column [] = Inl must_fit"
    by (simp add: interpolate_def new_interpolator_def interpolate_Physics_def)
  have spline: "interpolate lib (new_interpolator SplineInterpolator ic) df power_columns
      time_column extra \<noteq> Inl must_fit"
    by (simp add: interpolate_def new_interpolator_def interpolate_Spline_not_must_fit)
  have "\<exists>msg. interpolate lib (new_interpolator MultiOutputRegressionInterpolator ic) df
      power_columns time_column extra = Inl (TypeError msg)"
    using interpolate_MultiOutput_fallback [of "new_interpolator MultiOutputRegressionInterpolator ic"]
    by (simp add: interpolate_def new_interpolator_def)
  then have multi: "interpolate lib (new_interpolator MultiOutputRegressionInterpolator ic) df
      power_columns time_column extra \<noteq> Inl must_fit"
    by (auto simp: must_fit_def)
  from gp physics spline multi show ?thesis by blast
qed

text \<open>On the frame \<open>noon_frame\<close>: the fresh Gaussian-process instance raises the failure, and
  the fresh spline and multi-output instances do not.\<close>

theorem fit_precondition_witness:
  "interpolate example_library (new_interpolator GaussianProcessInterpolator None) noon_frame
     [''p''] ''t'' [] = Inl must_fit
   \<and> interpolate example_library (new_interpolator SplineInterpolator None) noon_frame
       [''p''] ''t'' [] \<noteq> Inl must_fit
   \<and> interpolate example_library (new_interpolator MultiOutputRegressionInterpolator None)
       noon_frame [''p''] ''t'' [] \<noteq> Inl must_fit"
  using fit_precondition [of example_library None noon_frame "[''p'']" "''t''" "[]"]
  by blast

text \<open>
  The claim as stated fails for the spline strategy: a fresh instance, never fitted,
  returns the constrained frame.
\<close>

theorem spline_unfitted_counterexample:
  "construct SplineInterpolator [] = Inr (new_interpolator SplineInterpolator None)
   \<and> is_fitted (new_interpolator SplineInterpolator None) = False
   \<and> interpolate example_library (new_interpolator SplineInterpolator None) noon_frame
       [''p''] ''t'' [] = Inr noon_constrained"
  by (simp add: construct_plain interpolate_def new_interpolator_def interpolate_Spline_def
      noon_frame_def noon_constrained_def count_known_def apply_solar_constraints_def Let_def
      hour_of_def set_night_def clip_column_def night_zero_def clip_lower_def drop_hour_def)

text \<open>A configuration that asks for one joint model (mode c), and the outcome of a fit
  that marks the instance fitted and leaves its model empty.\<close>

definition joint_config :: interpolation_config where
  "joint_config = \<lparr> ic_gap_analysis = JObj [], ic_recommendations = JObj [],
     ic_config = JObj [(''multi_output_regression'',
       JObj [(''model_equipment_independently'', JBool False)])] \<rparr>"

definition fitted_and_empty :: "py_error + interpolator \<Rightarrow> bool" where
  "fitted_and_empty r = (case r of Inr fitted \<Rightarrow> is_fitted fitted \<and> model fitted = NoModel
                                  | Inl e \<Rightarrow> False)"

text \<open>
  Claim C5 (multi-output insufficient-data policy) says that in the modes b and c, with too
  few complete rows, \<^verbatim>\<open>fit\<close> produces an empty model and \<^verbatim>\<open>interpolate\<close> falls back to the
  spline strategy and returns the spline-interpolated frame, never raising. The first half
  holds: \<^verbatim>\<open>fit\<close> marks the instance fitted and leaves the model empty. The fallback then
  calls \<^verbatim>\<open>SplineInterpolator.fit\<close> with the weather data as a fourth positional argument,
  which that method does not take. The theorem evaluates the code on a frame of four rows,
  in mode b (no configuration) and in mode c (\<^verbatim>\<open>model_equipment_independently\<close> false): the
  fit succeeds with an empty model, and \<^verbatim>\<open>interpolate\<close> raises \<^verbatim>\<open>TypeError\<close>.
\<close>

theorem multi_output_fallback_raises:
  "fitted_and_empty (fit example_library (new_interpolator MultiOutputRegressionInterpolator None)
       noon_frame [''p''] ''t'' [None])
   \<and> bind_err (fit example_library (new_interpolator MultiOutputRegressionInterpolator None)
         noon_frame [''p''] ''t'' [None])
       (\<lambda>fitted. interpolate example_library fitted noon_frame [''p''] ''t'' [None])
     = Inl too_many_arguments
   \<and> fitted_and_empty (fit example_library
       (new_interpolator MultiOutputRegressionInterpolator (Some joint_config))
       noon_frame [''p''] ''t'' [None])
   \<and> bind_err (fit example_library
         (new_interpolator MultiOutputRegressionInterpolator (Some joint_config))
         noon_frame [''p''] ''t'' [None])
       (\<lambda>fitted. interpolate example_library fitted noon_frame [''p''] ''t'' [None])
     = Inl too_many_arguments"
  by (simp add: fitted_and_empty_def fit_def interpolate_def new_interpolator_def
      fit_MultiOutput_def fit_independent_models_def fit_multi_output_model_def
      create_features_def get_method_config_def joint_config_def interpolate_MultiOutput_def model_absent_def
      construct_def fit_Spline_def
      noon_frame_def missing_columns_def complete_indices_def nrows_def row_complete_def
      model_count_def Let_def upt_rec)

text \<open>A gap-analysis document for a frame with the time column \<open>t\<close> and the power column
  \<open>p\<close>, recommending a method.\<close>

definition run_document :: "string \<Rightarrow> json" where
  "run_document m = JObj [
     (''structure'', JObj [(''time_column'', JStr ''t''), (''power_columns'', JList [JStr ''p''])]),
     (''recommendations'', JObj [(''primary_method'', JStr m)])]"

lemma document_structure:
  "extract_data_structure (run_document m) =
     Inr [(''time_column'', JStr ''t''), (''power_columns'', JList [JStr ''p'']),
          (''time_frequency'', JNull), (''total_rows'', JNull)]"
  by (simp add: extract_data_structure_def run_document_def)

lemma document_config:
  "new_interpolation_config (run_document m) =
     Inr \<lparr> ic_gap_analysis = run_document m,
           ic_recommendations = JObj [(''primary_method'', JStr m)],
           ic_config = JObj [] \<rparr>"
  by (simp add: new_interpolation_config_def run_document_def)

lemma document_override:
  "s \<noteq> [] \<Longrightarrow> get_recommended_method (run_document m) (Some s) = Inr (JStr s)"
  by (simp add: get_recommended_method_def Let_def)

lemma bind_err_fails: "(\<And>v. \<exists>e. f v = Inl e) \<Longrightarrow> \<exists>e. bind_err x f = Inl e"
  by (cases x) simp_all

lemma construction_fails:
  assumes "c \<noteq> MultiOutputRegressionInterpolator"
  shows "\<exists>e. bind_err (new_interpolation_config gap_analysis)
           (\<lambda>ic. bind_err (construct c [(''interpolation_config'', ic)]) (g ic)) = Inl e"
  by (rule bind_err_fails) (simp add: construct_rejects_keyword [OF assms])

lemma run_interpolation_never_returns:
  assumes "get_recommended_method gap_analysis method_name = Inr (JStr m)"
    and "map_of interpolators m = Some c"
    and "c \<noteq> MultiOutputRegressionInterpolator"
  shows "\<exists>e. run_interpolation lib choice df gap_analysis method_name validate weather_data = Inl e"
proof -
  have registry: "registered (JStr m) = Inr (m, c)"
    by (simp add: assms(2))
  show ?thesis
    unfolding run_interpolation_def Let_def
    apply (rule bind_err_fails)
    apply (simp only: assms(1) registry bind_err.simps split: if_splits)
    apply (rule conjI impI)+
     apply simp
    apply (rule impI)
    apply (simp only: prod.case)
    apply (rule bind_err_fails)
    apply (simp only: split_beta)
    apply (rule bind_err_fails)
    apply (rule construction_fails [OF assms(3)])
    done
qed

text \<open>
  Claim C2 (strategy invocability) says that for every name of the registry the engine can
  construct the strategy with the keyword \<^verbatim>\<open>interpolation_config\<close> and call its \<^verbatim>\<open>fit\<close>
  and \<^verbatim>\<open>interpolate\<close> with the weather frame, so that a run gets past construction and
  fitting without a call-signature error. Only \<^verbatim>\<open>MultiOutputRegressionInterpolator\<close> has
  that keyword parameter. The theorem evaluates the engine on runs with the names
  \<^verbatim>\<open>spline_interpolation\<close>, \<^verbatim>\<open>gaussian_process\<close> (with validation, on 20 complete rows) and
  \<^verbatim>\<open>physics_based_model\<close>: each raises \<^verbatim>\<open>TypeError\<close> at the construction. The same holds
  for the three aliases of these classes (lemma \<open>run_interpolation_never_returns\<close>).
\<close>

theorem run_interpolation_signature_error:
  "run_interpolation example_library first_n noon_frame (run_document ''spline_interpolation'')
       (Some ''spline_interpolation'') False None
     = Inl (TypeError ''__init__() got an unexpected keyword argument'')
   \<and> run_interpolation example_library first_n (series_frame (replicate 20 (Some 1)))
       (run_document ''spline_interpolation'') (Some ''gaussian_process'') True None
     = Inl (TypeError ''__init__() got an unexpected keyword argument'')
   \<and> run_interpolation example_library first_n noon_frame (run_document ''spline_interpolation'')
       (Some ''physics_based_model'') True None
     = Inl (TypeError ''__init__() got an unexpected keyword argument'')"
proof -
  have spline: "run_interpolation example_library first_n noon_frame
      (run_document ''spline_interpolation'') (Some ''spline_interpolation'') False None
     = Inl (TypeError ''__init__() got an unexpected keyword argument'')"
    by (simp add: run_interpolation_def document_structure document_override document_config
        interpolators_def typed_structure_def construct_def)
  have gp: "run_interpolation example_library first_n (series_frame (replicate 20 (Some 1)))
      (run_document ''spline_interpolation'') (Some ''gaussian_process'') True None
     = Inl (TypeError ''__init__() got an unexpected keyword argument'')"
    by (simp add: run_interpolation_def run_validation_def document_structure document_override
        document_config interpolators_def typed_structure_def construct_def
        create_validation_split_def Let_def missing_columns_series complete_indices_full)
  have few: "create_validation_split first_n noon_frame [''p''] default_ratio
      = Inr (noon_frame, Inl ''Insufficient complete data for validation'')"
    by (rule create_validation_split_few)
       (simp_all add: noon_frame_def missing_columns_def complete_indices_def nrows_def)
  have physics: "run_interpolation example_library first_n noon_frame
      (run_document ''spline_interpolation'') (Some ''physics_based_model'') True None
     = Inl (TypeError ''__init__() got an unexpected keyword argument'')"
    by (simp add: run_interpolation_def run_validation_def document_structure document_override
        document_config interpolators_def typed_structure_def construct_def few)
  from spline gp physics show ?thesis by simp
qed

text \<open>The structure section of the document passes the engine's truth test, and the run
  with the spline strategy fails all the same.\<close>

theorem run_interpolation_signature_error_witness:
  "truthy (JStr ''t'') \<and> truthy (JList [JStr ''p''])
   \<and> run_interpolation example_library first_n noon_frame (run_document ''spline_interpolation'')
       (Some ''spline_interpolation'') False None
     = Inl (TypeError ''__init__() got an unexpected keyword argument'')"
  using run_interpolation_signature_error by simp

text \<open>
  The two remaining steps of the engine that the claims C1 and C6 speak of: a resolved name
  that is not in the registry is rejected with \<^verbatim>\<open>ValueError\<close>, and a validation split that
  returns the diagnostic marker skips the validation without an error.
\<close>

lemma run_interpolation_rejects_unknown:
  assumes "extract_data_structure gap_analysis = Inr structure"
    and "map_of structure ''time_column'' = Some tc" and "truthy tc"
    and "map_of structure ''power_columns'' = Some pcs" and "truthy pcs"
    and "get_recommended_method gap_analysis method_name = Inr (JStr m)"
    and "map_of interpolators m = None"
  shows "run_interpolation lib choice df gap_analysis method_name validate weather_data
     = Inl (ValueError ''Unknown interpolation method'')"
  using assms by (simp add: run_interpolation_def)

lemma run_validation_skipped:
  assumes "create_validation_split choice df power_columns default_ratio = Inr (df_val, Inl note)"
  shows "run_validation lib choice df gap_analysis c power_columns time_column weather_data
     = Inr None"
  using assms by (simp add: run_validation_def)

end
